theory Spec2Isabelle
  imports Complex_Main "HOL-Library.Log_Nat" "HOL-Library.AList"
begin

section \<open>Python values shared by the three source files\<close>

text \<open>
  The repository holds three implementations of the same simulation:
  \<^item> \<^verbatim>\<open>src/main.py\<close>: \<^verbatim>\<open>StorageVirtualNode\<close>, \<^verbatim>\<open>FileTransfer\<close> (a chunk counter) and
    \<^verbatim>\<open>StorageVirtualNetwork\<close>; the definitions taken from it carry the suffix \<open>_main\<close>;
  \<^item> \<^verbatim>\<open>src/storage_virtual_network.py\<close>: \<^verbatim>\<open>StorageNode\<close>, \<^verbatim>\<open>FileTransfer\<close> (a list of
    \<^verbatim>\<open>ChunkInfo\<close>) and \<^verbatim>\<open>StorageNetwork\<close>; suffix \<open>_net\<close>;
  \<^item> \<^verbatim>\<open>src/storage_virtual_node.py\<close>: a stand-alone \<^verbatim>\<open>StorageVirtualNode\<close> with
    size-dependent chunking; suffix \<open>_node\<close>.

  Python integers are unbounded and are modelled by \<open>int\<close>. Exceptions are values of
  \<open>py_error\<close>, returned on the left of a sum.
\<close>

datatype py_error = ZeroDivisionError | OverflowError | ValueError

subsection \<open>True division and \<^verbatim>\<open>math.ceil\<close>\<close>

text \<open>
  \<^verbatim>\<open>a / b\<close> on two Python integers is the quotient rounded once to the nearest IEEE binary64
  number, ties to even; it raises \<^verbatim>\<open>ZeroDivisionError\<close> for \<open>b = 0\<close> and
  \<^verbatim>\<open>OverflowError\<close> when the rounded quotient is beyond the binary64 range. A finite
  binary64 number is represented by the rational it denotes.
\<close>

definition round_half_even :: "int \<Rightarrow> int \<Rightarrow> int" where
  "round_half_even n d =
     (let q = n div d; r = n mod d
      in if 2 * r < d then q
         else if d < 2 * r then q + 1
         else if even q then q else q + 1)"

text \<open>For positive \<open>a\<close> and \<open>b\<close>: the \<open>e\<close> with \<open>2 ^ e \<le> a / b < 2 ^ (e + 1)\<close>.\<close>

definition quotient_exponent :: "int \<Rightarrow> int \<Rightarrow> int" where
  "quotient_exponent a b =
     (let d = bitlen a - bitlen b
      in if (if 0 \<le> d then b * 2 ^ nat d \<le> a else b \<le> a * 2 ^ nat (- d)) then d else d - 1)"

text \<open>
  The binary64 number nearest to \<open>a / b\<close> for positive \<open>a\<close> and \<open>b\<close>, as a pair \<open>(m, q)\<close>
  denoting \<open>m * 2 ^ q\<close>: 53 significant bits, or fewer in the subnormal range.
\<close>

definition nearest_double :: "int \<Rightarrow> int \<Rightarrow> int \<times> int" where
  "nearest_double a b =
     (let q = max (quotient_exponent a b - 52) (- 1074)
      in (if 0 \<le> q then round_half_even a (b * 2 ^ nat q)
          else round_half_even (a * 2 ^ nat (- q)) b, q))"

definition double_value :: "int \<times> int \<Rightarrow> rat" where
  "double_value p = (case p of (m, q) \<Rightarrow>
     if 0 \<le> q then of_int (m * 2 ^ nat q) else of_int m / of_int (2 ^ nat (- q)))"

definition py_truediv :: "int \<Rightarrow> int \<Rightarrow> py_error + rat" where
  "py_truediv a b =
     (if b = 0 then Inl ZeroDivisionError
      else if a = 0 then Inr 0
      else let v = double_value (nearest_double \<bar>a\<bar> \<bar>b\<bar>)
           in if 2 ^ 1024 \<le> v then Inl OverflowError
              else Inr (if (a < 0) = (b < 0) then v else - v))"

text \<open>\<^verbatim>\<open>math.ceil(a / b)\<close>.\<close>

definition ceil_truediv :: "int \<Rightarrow> int \<Rightarrow> py_error + int" where
  "ceil_truediv a b =
     (case py_truediv a b of Inl e \<Rightarrow> Inl e | Inr v \<Rightarrow> Inr \<lceil>v\<rceil>)"

text \<open>
  \<^verbatim>\<open>(a / b) * 100\<close>, the percentage of the utilisation and progress reports. The
  product is a second binary64 operation; the reports only display it, and it is modelled
  by the exact product of the rounded quotient (its own rounding, and an infinite
  product, are not modelled).
\<close>

definition percent :: "int \<Rightarrow> int \<Rightarrow> py_error + rat" where
  "percent a b =
     (case py_truediv a b of Inl e \<Rightarrow> Inl e | Inr v \<Rightarrow> Inr (v * 100))"

subsection \<open>Decimal rendering of integers in f-strings\<close>

definition digit_char :: "nat \<Rightarrow> char" where
  "digit_char d = char_of (48 + d)"

fun str_nat :: "nat \<Rightarrow> string" where
  "str_nat n = (if n < 10 then [digit_char n] else str_nat (n div 10) @ [digit_char (n mod 10)])"

declare str_nat.simps [simp del]

definition str_int :: "int \<Rightarrow> string" where
  "str_int i = (if i < 0 then CHR ''-'' # str_nat (nat (- i)) else str_nat (nat i))"

section \<open>\<^verbatim>\<open>src/main.py\<close>\<close>

subsection \<open>\<^verbatim>\<open>StorageVirtualNode\<close>\<close>

record node_main =
  id_main :: string
  cpu_capacity_main :: int
  memory_capacity_main :: int
  storage_capacity_main :: int
  bandwidth_main :: int
  used_storage_main :: int
  node_active_transfers_main :: "string set"

definition StorageVirtualNode_main :: "string \<Rightarrow> int \<Rightarrow> int \<Rightarrow> int \<Rightarrow> int \<Rightarrow> node_main" where
  "StorageVirtualNode_main node_id cpu memory storage bw =
     \<lparr>id_main = node_id, cpu_capacity_main = cpu, memory_capacity_main = memory,
      storage_capacity_main = storage, bandwidth_main = bw, used_storage_main = 0,
      node_active_transfers_main = {}\<rparr>"

definition allocate_storage_main :: "node_main \<Rightarrow> int \<Rightarrow> node_main \<times> bool" where
  "allocate_storage_main n sz =
     (if used_storage_main n + sz \<le> storage_capacity_main n
      then (n\<lparr>used_storage_main := used_storage_main n + sz\<rparr>, True)
      else (n, False))"

definition free_storage_main :: "node_main \<Rightarrow> int \<Rightarrow> node_main" where
  "free_storage_main n sz = n\<lparr>used_storage_main := max 0 (used_storage_main n - sz)\<rparr>"

text \<open>The dictionary \<^verbatim>\<open>{'used', 'capacity', 'utilization_percent'}\<close> as a triple.\<close>

definition get_storage_utilization_main :: "node_main \<Rightarrow> py_error + (int \<times> int \<times> rat)" where
  "get_storage_utilization_main n =
     (case percent (used_storage_main n) (storage_capacity_main n) of
        Inl e \<Rightarrow> Inl e
      | Inr p \<Rightarrow> Inr (used_storage_main n, storage_capacity_main n, p))"

subsection \<open>\<^verbatim>\<open>FileTransfer\<close>\<close>

record transfer_main =
  file_id_main :: string
  source_main :: string
  target_main :: string
  file_name_main :: string
  file_size_main :: int
  chunk_size_main :: int
  total_chunks_main :: int
  transferred_chunks_main :: int
  completed_main :: bool

text \<open>The constructor; \<^verbatim>\<open>total_chunks = math.ceil(file_size / chunk_size)\<close> may raise.\<close>

definition FileTransfer_main ::
  "string \<Rightarrow> string \<Rightarrow> string \<Rightarrow> string \<Rightarrow> int \<Rightarrow> int \<Rightarrow> py_error + transfer_main" where
  "FileTransfer_main file_id source target file_name file_size chunk_size =
     (case ceil_truediv file_size chunk_size of
        Inl e \<Rightarrow> Inl e
      | Inr c \<Rightarrow> Inr \<lparr>file_id_main = file_id, source_main = source, target_main = target,
                      file_name_main = file_name, file_size_main = file_size,
                      chunk_size_main = chunk_size, total_chunks_main = c,
                      transferred_chunks_main = 0, completed_main = False\<rparr>)"

definition get_progress_main :: "transfer_main \<Rightarrow> py_error + rat" where
  "get_progress_main t = percent (transferred_chunks_main t) (total_chunks_main t)"

subsection \<open>\<^verbatim>\<open>StorageVirtualNetwork\<close>\<close>

text \<open>
  \<^verbatim>\<open>nodes\<close> is only looked up by key and is a map; \<^verbatim>\<open>connections\<close> and
  \<^verbatim>\<open>active_transfers\<close> are iterated by \<^verbatim>\<open>get_network_stats\<close> and are association lists in
  insertion order. A connection \<^verbatim>\<open>{'bandwidth': b, 'utilized': u}\<close> is the pair \<open>(b, u)\<close>.
\<close>

record network_main =
  nodes_main :: "string \<rightharpoonup> node_main"
  connections_main :: "(string \<times> int \<times> int) list"
  active_transfers_main :: "(string \<times> transfer_main) list"
  transfer_counter_main :: int

definition StorageVirtualNetwork_main :: network_main where
  "StorageVirtualNetwork_main =
     \<lparr>nodes_main = Map.empty, connections_main = [], active_transfers_main = [],
      transfer_counter_main = 0\<rparr>"

definition add_node_main :: "network_main \<Rightarrow> node_main \<Rightarrow> network_main" where
  "add_node_main net n = net\<lparr>nodes_main := (nodes_main net)(id_main n \<mapsto> n)\<rparr>"

definition connect_nodes_main :: "network_main \<Rightarrow> string \<Rightarrow> string \<Rightarrow> int \<Rightarrow> network_main" where
  "connect_nodes_main net node1_id node2_id bw =
     net\<lparr>connections_main :=
           AList.update (node1_id @ ''-'' @ node2_id) (bw, 0) (connections_main net)\<rparr>"

text \<open>
  \<^verbatim>\<open>initiate_file_transfer\<close> returns the new network, the lines it printed, and its
  result: \<open>Inr None\<close> for \<^verbatim>\<open>return None\<close>, \<open>Inr (Some t)\<close> for the transfer, \<open>Inl e\<close> when the
  \<^verbatim>\<open>FileTransfer\<close> constructor raises (after the storage was allocated and the counter
  incremented).
\<close>

definition initiate_file_transfer_main ::
  "network_main \<Rightarrow> string \<Rightarrow> string \<Rightarrow> string \<Rightarrow> int
     \<Rightarrow> network_main \<times> string list \<times> (py_error + transfer_main option)" where
  "initiate_file_transfer_main net source_node_id target_node_id file_name file_size =
     (case (nodes_main net source_node_id, nodes_main net target_node_id) of
        (Some source, Some target) \<Rightarrow>
          (case allocate_storage_main target file_size of
             (target', True) \<Rightarrow>
               (let file_id = ''transfer_'' @ str_int (transfer_counter_main net);
                    net1 = net\<lparr>nodes_main := (nodes_main net)(target_node_id \<mapsto> target'),
                               transfer_counter_main := transfer_counter_main net + 1\<rparr>
                in case FileTransfer_main file_id source_node_id target_node_id file_name
                          file_size (1024 * 1024) of
                     Inl e \<Rightarrow> (net1, [], Inl e)
                   | Inr transfer \<Rightarrow>
                       (net1\<lparr>active_transfers_main :=
                               AList.update file_id transfer (active_transfers_main net1)\<rparr>,
                        [], Inr (Some transfer)))
           | (target', False) \<Rightarrow>
               (net, [''Error: Insufficient storage on '' @ target_node_id], Inr None))
      | _ \<Rightarrow> (net, [''Error: Source or target node not found''], Inr None))"

definition process_file_transfer_main ::
  "network_main \<Rightarrow> string \<Rightarrow> string \<Rightarrow> string \<Rightarrow> int \<Rightarrow> network_main \<times> int \<times> bool" where
  "process_file_transfer_main net source_node_id target_node_id file_id chunks_per_step =
     (case map_of (active_transfers_main net) file_id of
        None \<Rightarrow> (net, 0, True)
      | Some transfer \<Rightarrow>
          if completed_main transfer then (net, 0, True)
          else
            let chunks_remaining = total_chunks_main transfer - transferred_chunks_main transfer;
                chunks_to_process = min chunks_per_step chunks_remaining;
                t1 = transfer\<lparr>transferred_chunks_main :=
                                transferred_chunks_main transfer + chunks_to_process\<rparr>;
                t2 = (if total_chunks_main t1 \<le> transferred_chunks_main t1
                      then t1\<lparr>completed_main := True\<rparr> else t1)
            in (net\<lparr>active_transfers_main :=
                       AList.update file_id t2 (active_transfers_main net)\<rparr>,
                chunks_to_process, completed_main t2))"

text \<open>
  \<^verbatim>\<open>get_network_stats\<close>: the triple \<^verbatim>\<open>bandwidth_utilization\<close>, \<^verbatim>\<open>active_transfers\<close>,
  \<^verbatim>\<open>total_transfers\<close>. The denominator is guarded here.
\<close>

definition get_network_stats_main :: "network_main \<Rightarrow> py_error + (rat \<times> int \<times> int)" where
  "get_network_stats_main net =
     (let total_bandwidth = sum_list (map (\<lambda>(k, b, u). b) (connections_main net));
          active_count = int (length (filter (\<lambda>(k, t). \<not> completed_main t)
                                        (active_transfers_main net)));
          utilized = (if 0 < active_count then active_count * 100 else 0);
          total = int (length (active_transfers_main net))
      in if 0 < total_bandwidth
         then (case percent utilized total_bandwidth of
                 Inl e \<Rightarrow> Inl e
               | Inr p \<Rightarrow> Inr (p, active_count, total))
         else Inr (0, active_count, total))"

section \<open>\<^verbatim>\<open>src/storage_virtual_network.py\<close>\<close>

subsection \<open>\<^verbatim>\<open>TransferStatus\<close>, \<^verbatim>\<open>ChunkInfo\<close> and \<^verbatim>\<open>FileTransfer\<close>\<close>

datatype transfer_status = PENDING | IN_PROGRESS | COMPLETED | FAILED

text \<open>
  The \<^verbatim>\<open>timestamp\<close> of a chunk is a reading of the wall clock; it is written and never
  read, and is left out of the record.
\<close>

record chunk_info_net =
  chunk_id_net :: string
  size_net :: int
  chunk_status_net :: transfer_status

record transfer_net =
  file_id_net :: string
  file_name_net :: string
  file_size_net :: int
  source_node_id_net :: string
  chunk_size_net :: int
  status_net :: transfer_status
  chunks_net :: "chunk_info_net list"

text \<open>\<^verbatim>\<open>range(num_chunks)\<close> is empty for a count below one.\<close>

definition py_range :: "int \<Rightarrow> nat list" where
  "py_range n = [0 ..< nat n]"

definition FileTransfer_net ::
  "string \<Rightarrow> string \<Rightarrow> int \<Rightarrow> string \<Rightarrow> int \<Rightarrow> py_error + transfer_net" where
  "FileTransfer_net file_id file_name file_size source_node_id chunk_size =
     (if chunk_size = 0 then Inl ZeroDivisionError
      else
        let num_chunks = (file_size + chunk_size - 1) div chunk_size
        in Inr \<lparr>file_id_net = file_id, file_name_net = file_name, file_size_net = file_size,
                source_node_id_net = source_node_id, chunk_size_net = chunk_size,
                status_net = PENDING,
                chunks_net =
                  map (\<lambda>idx. \<lparr>chunk_id_net = file_id @ ''_chunk_'' @ str_nat idx,
                              size_net = min chunk_size (file_size - int idx * chunk_size),
                              chunk_status_net = PENDING\<rparr>)
                      (py_range num_chunks)\<rparr>)"

definition get_progress_net :: "transfer_net \<Rightarrow> py_error + rat" where
  "get_progress_net t =
     (if chunks_net t = [] then Inr 0
      else percent (int (length (filter (\<lambda>c. chunk_status_net c = COMPLETED) (chunks_net t))))
                   (int (length (chunks_net t))))"

subsection \<open>\<^verbatim>\<open>StorageNode\<close>\<close>

text \<open>
  A \<^verbatim>\<open>FileTransfer\<close> object is referenced from two places, the target node's
  \<^verbatim>\<open>active_transfers\<close> and the network's \<^verbatim>\<open>transfer_operations\<close>, and is mutated through
  either. The objects therefore live in a store, the list of all transfers created so
  far, and the dictionaries hold positions in it.
\<close>

type_synonym ref = nat

record node_net =
  node_id_net :: string
  cpu_capacity_net :: int
  memory_capacity_net :: int
  total_storage_net :: int
  bandwidth_net :: int
  used_storage_net :: int
  network_utilization_net :: int
  connections_net :: "(string \<times> int) list"
  active_transfers_net :: "(string \<times> ref) list"

definition StorageNode_net :: "string \<Rightarrow> int \<Rightarrow> int \<Rightarrow> int \<Rightarrow> int \<Rightarrow> node_net" where
  "StorageNode_net node_id cpu memory storage bw =
     \<lparr>node_id_net = node_id, cpu_capacity_net = cpu, memory_capacity_net = memory,
      total_storage_net = storage, bandwidth_net = bw, used_storage_net = 0,
      network_utilization_net = 0, connections_net = [], active_transfers_net = []\<rparr>"

definition add_connection_net :: "node_net \<Rightarrow> string \<Rightarrow> int \<Rightarrow> node_net" where
  "add_connection_net n target_node_id bw =
     n\<lparr>connections_net := AList.update target_node_id bw (connections_net n)\<rparr>"

definition allocate_storage_net :: "node_net \<Rightarrow> int \<Rightarrow> node_net \<times> bool" where
  "allocate_storage_net n sz =
     (if used_storage_net n + sz \<le> total_storage_net n
      then (n\<lparr>used_storage_net := used_storage_net n + sz\<rparr>, True)
      else (n, False))"

definition free_storage_net :: "node_net \<Rightarrow> int \<Rightarrow> node_net" where
  "free_storage_net n sz = n\<lparr>used_storage_net := max 0 (used_storage_net n - sz)\<rparr>"

definition get_storage_utilization_net :: "node_net \<Rightarrow> py_error + (int \<times> int \<times> rat)" where
  "get_storage_utilization_net n =
     (if 0 < total_storage_net n
      then (case percent (used_storage_net n) (total_storage_net n) of
              Inl e \<Rightarrow> Inl e
            | Inr p \<Rightarrow> Inr (used_storage_net n, total_storage_net n, p))
      else Inr (used_storage_net n, total_storage_net n, 0))"

text \<open>
  \<^verbatim>\<open>StorageNode.initiate_file_transfer\<close>: the node, the store and the reference of the new
  transfer (\<open>None\<close> for \<^verbatim>\<open>return None\<close>). The constructor is called with its default chunk
  size of 1 MiB and cannot raise.
\<close>

definition node_initiate_file_transfer_net ::
  "node_net \<Rightarrow> transfer_net list \<Rightarrow> string \<Rightarrow> string \<Rightarrow> int \<Rightarrow> string
     \<Rightarrow> node_net \<times> transfer_net list \<times> ref option" where
  "node_initiate_file_transfer_net n objs file_id file_name file_size source_node_id =
     (case allocate_storage_net n file_size of
        (n', False) \<Rightarrow> (n, objs, None)
      | (n', True) \<Rightarrow>
          (case FileTransfer_net file_id file_name file_size source_node_id (1024 * 1024) of
             Inl e \<Rightarrow> (n', objs, None)
           | Inr transfer \<Rightarrow>
               (n'\<lparr>active_transfers_net :=
                     AList.update file_id (length objs) (active_transfers_net n')\<rparr>,
                objs @ [transfer\<lparr>status_net := IN_PROGRESS\<rparr>],
                Some (length objs))))"

text \<open>
  The loop of \<^verbatim>\<open>process_chunk_transfer\<close> over the chunks of a transfer: the first chunk
  with the given id that is not completed is completed; \<open>None\<close> when there is none.
\<close>

fun complete_chunk :: "string \<Rightarrow> chunk_info_net list \<Rightarrow> chunk_info_net list option" where
  "complete_chunk cid [] = None"
| "complete_chunk cid (c # cs) =
     (if chunk_id_net c = cid \<and> chunk_status_net c \<noteq> COMPLETED
      then Some (c\<lparr>chunk_status_net := COMPLETED\<rparr> # cs)
      else map_option ((#) c) (complete_chunk cid cs))"

definition process_chunk_transfer_net ::
  "node_net \<Rightarrow> transfer_net list \<Rightarrow> string \<Rightarrow> string \<Rightarrow> string \<Rightarrow> transfer_net list \<times> bool" where
  "process_chunk_transfer_net n objs file_id chunk_id source_node_id =
     (case map_of (active_transfers_net n) file_id of
        None \<Rightarrow> (objs, False)
      | Some r \<Rightarrow>
          (case complete_chunk chunk_id (chunks_net (objs ! r)) of
             None \<Rightarrow> (objs, False)
           | Some cs \<Rightarrow>
               (let t1 = (objs ! r)\<lparr>chunks_net := cs\<rparr>;
                    t2 = (if list_all (\<lambda>c. chunk_status_net c = COMPLETED) cs
                          then t1\<lparr>status_net := COMPLETED\<rparr> else t1)
                in (objs[r := t2], True))))"

subsection \<open>\<^verbatim>\<open>StorageNetwork\<close>\<close>

text \<open>
  \<^verbatim>\<open>nodes\<close> is iterated by \<^verbatim>\<open>get_network_stats\<close> and is an association list.
  \<^verbatim>\<open>transfer_operations\<close> is a \<^verbatim>\<open>defaultdict(dict)\<close>: reading a missing key yields an
  empty dictionary and inserts it. \<open>objects_net\<close> is the store of the transfers created
  through this network.
\<close>

record network_net =
  nodes_net :: "(string \<times> node_net) list"
  transfer_operations_net :: "(string \<times> (string \<times> ref) list) list"
  objects_net :: "transfer_net list"

definition StorageNetwork_net :: network_net where
  "StorageNetwork_net = \<lparr>nodes_net = [], transfer_operations_net = [], objects_net = []\<rparr>"

definition defaultdict_get :: "(string \<times> (string \<times> ref) list) list \<Rightarrow> string \<Rightarrow> (string \<times> ref) list" where
  "defaultdict_get d k = (case map_of d k of None \<Rightarrow> [] | Some v \<Rightarrow> v)"

definition defaultdict_touch ::
  "(string \<times> (string \<times> ref) list) list \<Rightarrow> string \<Rightarrow> (string \<times> (string \<times> ref) list) list" where
  "defaultdict_touch d k = (case map_of d k of None \<Rightarrow> d @ [(k, [])] | Some v \<Rightarrow> d)"

definition add_node_net :: "network_net \<Rightarrow> node_net \<Rightarrow> network_net" where
  "add_node_net net n = net\<lparr>nodes_net := AList.update (node_id_net n) n (nodes_net net)\<rparr>"

definition connect_nodes_net ::
  "network_net \<Rightarrow> string \<Rightarrow> string \<Rightarrow> int \<Rightarrow> network_net \<times> bool" where
  "connect_nodes_net net node1_id node2_id bw =
     (case (map_of (nodes_net net) node1_id, map_of (nodes_net net) node2_id) of
        (Some n1, Some n2) \<Rightarrow>
          (let nodes1 = AList.update node1_id (add_connection_net n1 node2_id bw) (nodes_net net)
           in case map_of nodes1 node2_id of
                Some n2' \<Rightarrow>
                  (net\<lparr>nodes_net :=
                         AList.update node2_id (add_connection_net n2' node1_id bw) nodes1\<rparr>,
                   True)
              | None \<Rightarrow> (net\<lparr>nodes_net := nodes1\<rparr>, True))
      | _ \<Rightarrow> (net, False))"

text \<open>
  \<^verbatim>\<open>StorageNetwork.initiate_file_transfer\<close>. The id is
  \<^verbatim>\<open>hashlib.md5(f"{file_name}-{time.time()}".encode()).hexdigest()\<close>: the digest function
  \<open>md5\<close> and the rendered clock reading \<open>now\<close> are inputs of the model.
\<close>

definition initiate_file_transfer_net ::
  "(string \<Rightarrow> string) \<Rightarrow> string \<Rightarrow> network_net \<Rightarrow> string \<Rightarrow> string \<Rightarrow> string \<Rightarrow> int
     \<Rightarrow> network_net \<times> ref option" where
  "initiate_file_transfer_net md5 now net source_node_id target_node_id file_name file_size =
     (case (map_of (nodes_net net) source_node_id, map_of (nodes_net net) target_node_id) of
        (Some source_node, Some target_node) \<Rightarrow>
          (let file_id = md5 (file_name @ ''-'' @ now)
           in case node_initiate_file_transfer_net target_node (objects_net net) file_id
                     file_name file_size source_node_id of
                (target', objs', Some r) \<Rightarrow>
                  (net\<lparr>nodes_net := AList.update target_node_id target' (nodes_net net),
                        objects_net := objs',
                        transfer_operations_net :=
                          AList.update source_node_id
                            (AList.update file_id r
                               (defaultdict_get (transfer_operations_net net) source_node_id))
                            (transfer_operations_net net)\<rparr>,
                   Some r)
              | (target', objs', None) \<Rightarrow> (net, None))
      | _ \<Rightarrow> (net, None))"

text \<open>
  The loop of \<^verbatim>\<open>process_file_transfer\<close> over the chunk positions that are left: the
  store, the count, and whether the loop ran to its end (\<open>False\<close> for the early
  \<^verbatim>\<open>return (chunks_transferred, False)\<close>).
\<close>

fun process_chunks ::
  "node_net \<Rightarrow> string \<Rightarrow> string \<Rightarrow> int \<Rightarrow> ref \<Rightarrow> nat list \<Rightarrow> transfer_net list \<Rightarrow> int
     \<Rightarrow> transfer_net list \<times> int \<times> bool" where
  "process_chunks target_node file_id source_node_id chunks_per_step r [] objs transferred =
     (objs, transferred, True)"
| "process_chunks target_node file_id source_node_id chunks_per_step r (i # is) objs transferred =
     (let chunk = chunks_net (objs ! r) ! i
      in if chunk_status_net chunk \<noteq> COMPLETED \<and> transferred < chunks_per_step
         then (case process_chunk_transfer_net target_node objs file_id (chunk_id_net chunk)
                      source_node_id of
                 (objs', True) \<Rightarrow>
                   process_chunks target_node file_id source_node_id chunks_per_step r is objs'
                     (transferred + 1)
               | (objs', False) \<Rightarrow> (objs', transferred, False))
         else process_chunks target_node file_id source_node_id chunks_per_step r is objs
                transferred)"

definition process_file_transfer_net ::
  "network_net \<Rightarrow> string \<Rightarrow> string \<Rightarrow> string \<Rightarrow> int \<Rightarrow> network_net \<times> int \<times> bool" where
  "process_file_transfer_net net source_node_id target_node_id file_id chunks_per_step =
     (case (map_of (nodes_net net) source_node_id, map_of (nodes_net net) target_node_id) of
        (Some source_node, Some target_node) \<Rightarrow>
          (let ops = defaultdict_touch (transfer_operations_net net) source_node_id
           in case map_of (defaultdict_get ops source_node_id) file_id of
                None \<Rightarrow> (net\<lparr>transfer_operations_net := ops\<rparr>, 0, False)
              | Some r \<Rightarrow>
                  (case process_chunks target_node file_id source_node_id chunks_per_step r
                          [0 ..< length (chunks_net (objects_net net ! r))] (objects_net net) 0 of
                     (objs', transferred, False) \<Rightarrow>
                       (net\<lparr>transfer_operations_net := ops, objects_net := objs'\<rparr>,
                        transferred, False)
                   | (objs', transferred, True) \<Rightarrow>
                       if status_net (objs' ! r) = COMPLETED
                       then (net\<lparr>transfer_operations_net :=
                                   AList.update source_node_id
                                     (AList.delete file_id (defaultdict_get ops source_node_id)) ops,
                                 objects_net := objs'\<rparr>,
                             transferred, True)
                       else (net\<lparr>transfer_operations_net := ops, objects_net := objs'\<rparr>,
                             transferred, False)))
      | _ \<Rightarrow> (net, 0, False))"

record stats_net =
  total_nodes :: int
  total_bandwidth_bps :: int
  used_bandwidth_bps :: int
  bandwidth_utilization :: rat
  total_storage_bytes :: int
  used_storage_bytes :: int
  storage_utilization :: rat
  active_transfers :: int

definition guarded_percent :: "int \<Rightarrow> int \<Rightarrow> py_error + rat" where
  "guarded_percent a b = (if 0 < b then percent a b else Inr 0)"

definition get_network_stats_net :: "network_net \<Rightarrow> py_error + stats_net" where
  "get_network_stats_net net =
     (let total_bandwidth = sum_list (map (\<lambda>(k, n). bandwidth_net n) (nodes_net net));
          used_bandwidth = sum_list (map (\<lambda>(k, n). network_utilization_net n) (nodes_net net));
          total_storage = sum_list (map (\<lambda>(k, n). total_storage_net n) (nodes_net net));
          used_storage = sum_list (map (\<lambda>(k, n). used_storage_net n) (nodes_net net))
      in case guarded_percent used_bandwidth total_bandwidth of
           Inl e \<Rightarrow> Inl e
         | Inr bandwidth_util \<Rightarrow>
             (case guarded_percent used_storage total_storage of
                Inl e \<Rightarrow> Inl e
              | Inr storage_util \<Rightarrow>
                  Inr \<lparr>total_nodes = int (length (nodes_net net)),
                       total_bandwidth_bps = total_bandwidth,
                       used_bandwidth_bps = used_bandwidth,
                       bandwidth_utilization = bandwidth_util,
                       total_storage_bytes = total_storage,
                       used_storage_bytes = used_storage,
                       storage_utilization = storage_util,
                       active_transfers =
                         sum_list (map (\<lambda>(k, t). int (length t))
                                       (transfer_operations_net net))\<rparr>))"

section \<open>\<^verbatim>\<open>src/storage_virtual_node.py\<close>\<close>

subsection \<open>Mixed integer and float arithmetic\<close>

text \<open>
  \<^verbatim>\<open>network_utilization\<close> starts as the integer 0 and becomes a float at the first
  \<^verbatim>\<open>+= available_bw * 0.8\<close>. A Python number is an integer or a finite binary64 number
  \<open>m * 2 ^ q\<close>, given by the pair \<open>(m, q)\<close>; every float operation rounds its exact
  result to the nearest binary64 number. Infinities are not modelled.
\<close>

datatype pynum = PyInt int | PyFloat "int \<times> int"

definition num_value :: "pynum \<Rightarrow> rat" where
  "num_value x = (case x of PyInt i \<Rightarrow> of_int i | PyFloat p \<Rightarrow> double_value p)"

text \<open>The binary64 number nearest to \<open>a / b\<close>, for any \<open>a\<close> and positive \<open>b\<close>.\<close>

definition round_quotient :: "int \<Rightarrow> int \<Rightarrow> int \<times> int" where
  "round_quotient a b =
     (if a = 0 then (0, 0)
      else case nearest_double \<bar>a\<bar> b of (m, q) \<Rightarrow> (if a < 0 then - m else m, q))"

text \<open>The binary64 number nearest to \<open>n * 2 ^ q\<close>.\<close>

definition round_dyadic :: "int \<times> int \<Rightarrow> int \<times> int" where
  "round_dyadic p = (case p of (n, q) \<Rightarrow>
     if 0 \<le> q then round_quotient (n * 2 ^ nat q) 1 else round_quotient n (2 ^ nat (- q)))"

text \<open>\<^verbatim>\<open>float(i)\<close>, as the arithmetic applies it to an integer operand.\<close>

definition to_float :: "pynum \<Rightarrow> py_error + int \<times> int" where
  "to_float x =
     (case x of
        PyFloat p \<Rightarrow> Inr p
      | PyInt i \<Rightarrow>
          let p = round_quotient i 1
          in if 2 ^ 1024 \<le> \<bar>double_value p\<bar> then Inl OverflowError else Inr p)"

definition float_add :: "int \<times> int \<Rightarrow> int \<times> int \<Rightarrow> int \<times> int" where
  "float_add x y = (case (x, y) of ((m1, q1), (m2, q2)) \<Rightarrow>
     let q = min q1 q2
     in round_dyadic (m1 * 2 ^ nat (q1 - q) + m2 * 2 ^ nat (q2 - q), q))"

definition float_sub :: "int \<times> int \<Rightarrow> int \<times> int \<Rightarrow> int \<times> int" where
  "float_sub x y = (case y of (m2, q2) \<Rightarrow> float_add x (- m2, q2))"

definition float_mul :: "int \<times> int \<Rightarrow> int \<times> int \<Rightarrow> int \<times> int" where
  "float_mul x y = (case (x, y) of ((m1, q1), (m2, q2)) \<Rightarrow> round_dyadic (m1 * m2, q1 + q2))"

text \<open>The quotient of two floats, for a nonzero divisor.\<close>

definition float_div :: "int \<times> int \<Rightarrow> int \<times> int \<Rightarrow> int \<times> int" where
  "float_div x y = (case (x, y) of ((m1, q1), (m2, q2)) \<Rightarrow>
     let a = m1 * 2 ^ nat (q1 - q2); b = m2 * 2 ^ nat (q2 - q1)
     in if b < 0 then round_quotient (- a) (- b) else round_quotient a b)"

text \<open>\<^verbatim>\<open>b - u\<close> for an integer \<open>b\<close>.\<close>

definition py_sub :: "int \<Rightarrow> pynum \<Rightarrow> py_error + pynum" where
  "py_sub b u =
     (case u of
        PyInt i \<Rightarrow> Inr (PyInt (b - i))
      | PyFloat f \<Rightarrow>
          (case to_float (PyInt b) of
             Inl e \<Rightarrow> Inl e
           | Inr v \<Rightarrow> Inr (PyFloat (float_sub v f))))"

text \<open>\<^verbatim>\<open>min(x, c)\<close> for an integer \<open>c\<close>: the first argument unless the second is smaller.\<close>

definition py_min :: "pynum \<Rightarrow> int \<Rightarrow> pynum" where
  "py_min x c = (if of_int c < num_value x then PyInt c else x)"

text \<open>\<^verbatim>\<open>bits / x\<close> for an integer \<open>bits\<close> and a nonzero \<open>x\<close>, as the rational it denotes.\<close>

definition py_div :: "int \<Rightarrow> pynum \<Rightarrow> py_error + rat" where
  "py_div bits x =
     (case x of
        PyInt i \<Rightarrow> py_truediv bits i
      | PyFloat f \<Rightarrow>
          (case to_float (PyInt bits) of
             Inl e \<Rightarrow> Inl e
           | Inr v \<Rightarrow> Inr (double_value (float_div v f))))"

text \<open>The binary64 number nearest to 0.8.\<close>

definition double_0_8 :: "int \<times> int" where
  "double_0_8 = (3602879701896397, - 52)"

text \<open>\<^verbatim>\<open>u + x * 0.8\<close>.\<close>

definition py_add_scaled :: "pynum \<Rightarrow> pynum \<Rightarrow> py_error + pynum" where
  "py_add_scaled u x =
     (case to_float x of
        Inl e \<Rightarrow> Inl e
      | Inr xv \<Rightarrow>
          (case to_float u of
             Inl e \<Rightarrow> Inl e
           | Inr uv \<Rightarrow> Inr (PyFloat (float_add uv (float_mul xv double_0_8)))))"

subsection \<open>\<^verbatim>\<open>FileChunk\<close> and \<^verbatim>\<open>FileTransfer\<close>\<close>

text \<open>The time stamps \<^verbatim>\<open>created_at\<close> and \<^verbatim>\<open>completed_at\<close> are left out of the record.\<close>

record chunk_node =
  chunk_id_node :: int
  size_node :: int
  checksum_node :: string
  chunk_status_node :: transfer_status
  stored_node :: "string option"

record transfer_node =
  file_id_node :: string
  file_name_node :: string
  total_size_node :: int
  chunks_node :: "chunk_node list"
  status_node :: transfer_status

subsection \<open>\<^verbatim>\<open>StorageVirtualNode\<close>\<close>

record node_node =
  node_id_node :: string
  cpu_capacity_node :: int
  memory_capacity_node :: int
  total_storage_node :: int
  bandwidth_node :: int
  used_storage_node :: int
  active_transfers_node :: "(string \<times> transfer_node) list"
  stored_files_node :: "(string \<times> transfer_node) list"
  network_utilization_node :: pynum
  total_requests_processed_node :: int
  total_data_transferred_node :: int
  failed_transfers_node :: int
  connections_node :: "(string \<times> int) list"

text \<open>
  The initialiser is spelt \<^verbatim>\<open>_init_\<close> in the source, so Python does not run it at
  construction; this is the state it sets when it is called.
\<close>

definition init_node :: "string \<Rightarrow> int \<Rightarrow> int \<Rightarrow> int \<Rightarrow> int \<Rightarrow> node_node" where
  "init_node node_id cpu memory storage bw =
     \<lparr>node_id_node = node_id, cpu_capacity_node = cpu, memory_capacity_node = memory,
      total_storage_node = storage * 1024 * 1024 * 1024, bandwidth_node = bw * 1000000,
      used_storage_node = 0, active_transfers_node = [], stored_files_node = [],
      network_utilization_node = PyInt 0, total_requests_processed_node = 0,
      total_data_transferred_node = 0, failed_transfers_node = 0, connections_node = []\<rparr>"

definition add_connection_node :: "node_node \<Rightarrow> string \<Rightarrow> int \<Rightarrow> node_node" where
  "add_connection_node n node_id bw =
     n\<lparr>connections_node := AList.update node_id (bw * 1000000) (connections_node n)\<rparr>"

definition calculate_chunk_size :: "int \<Rightarrow> int" where
  "calculate_chunk_size file_size =
     (if file_size < 10 * 1024 * 1024 then 512 * 1024
      else if file_size < 100 * 1024 * 1024 then 2 * 1024 * 1024
      else 10 * 1024 * 1024)"

text \<open>
  \<^verbatim>\<open>_generate_chunks\<close>; the checksum is \<^verbatim>\<open>hashlib.md5(f"{file_id}-{idx}".encode()).hexdigest()\<close>,
  with the digest function \<open>md5\<close> an input of the model.
\<close>

definition generate_chunks :: "(string \<Rightarrow> string) \<Rightarrow> string \<Rightarrow> int \<Rightarrow> py_error + chunk_node list" where
  "generate_chunks md5 file_id file_size =
     (let chunk_size = calculate_chunk_size file_size
      in case ceil_truediv file_size chunk_size of
           Inl e \<Rightarrow> Inl e
         | Inr num_chunks \<Rightarrow>
             Inr (map (\<lambda>idx. \<lparr>chunk_id_node = int idx,
                              size_node = min chunk_size (file_size - int idx * chunk_size),
                              checksum_node = md5 (file_id @ ''-'' @ str_nat idx),
                              chunk_status_node = PENDING,
                              stored_node = None\<rparr>)
                      (py_range num_chunks)))"

definition initiate_file_transfer_node ::
  "(string \<Rightarrow> string) \<Rightarrow> node_node \<Rightarrow> string \<Rightarrow> string \<Rightarrow> int
     \<Rightarrow> node_node \<times> (py_error + transfer_node option)" where
  "initiate_file_transfer_node md5 n file_id file_name file_size =
     (if total_storage_node n < used_storage_node n + file_size then (n, Inr None)
      else case generate_chunks md5 file_id file_size of
             Inl e \<Rightarrow> (n, Inl e)
           | Inr chunks \<Rightarrow>
               (let transfer = \<lparr>file_id_node = file_id, file_name_node = file_name,
                                total_size_node = file_size, chunks_node = chunks,
                                status_node = PENDING\<rparr>
                in (n\<lparr>active_transfers_node :=
                        AList.update file_id transfer (active_transfers_node n)\<rparr>,
                    Inr (Some transfer))))"

text \<open>
  \<^verbatim>\<open>chunk = next(c for c in transfer.chunks if c.chunk_id == chunk_id)\<close> and the two
  assignments to that chunk: the first chunk with the id is marked, whatever its status.
\<close>

fun store_chunk :: "int \<Rightarrow> string \<Rightarrow> chunk_node list \<Rightarrow> chunk_node list" where
  "store_chunk cid nid [] = []"
| "store_chunk cid nid (c # cs) =
     (if chunk_id_node c = cid
      then c\<lparr>chunk_status_node := COMPLETED, stored_node := Some nid\<rparr> # cs
      else c # store_chunk cid nid cs)"

text \<open>
  \<^verbatim>\<open>min(self.bandwidth - self.network_utilization, self.connections.get(source_node, 0))\<close>
\<close>

definition available_bandwidth :: "node_node \<Rightarrow> string \<Rightarrow> py_error + pynum" where
  "available_bandwidth n source_node =
     (case py_sub (bandwidth_node n) (network_utilization_node n) of
        Inl e \<Rightarrow> Inl e
      | Inr free_bw \<Rightarrow>
          Inr (py_min free_bw
                 (case map_of (connections_node n) source_node of None \<Rightarrow> 0 | Some c \<Rightarrow> c)))"

text \<open>The block run when every chunk of the transfer is completed.\<close>

definition complete_transfer :: "node_node \<Rightarrow> string \<Rightarrow> transfer_node \<Rightarrow> node_node" where
  "complete_transfer n file_id transfer =
     (let t = transfer\<lparr>status_node := COMPLETED\<rparr>
      in n\<lparr>used_storage_node := used_storage_node n + total_size_node t,
           stored_files_node := AList.update file_id t (stored_files_node n),
           active_transfers_node := AList.delete file_id (active_transfers_node n),
           total_requests_processed_node := total_requests_processed_node n + 1\<rparr>)"

text \<open>
  \<^verbatim>\<open>process_chunk_transfer\<close> returns the node as it is left and the result, \<open>Inl e\<close> when an
  exception ends the call. \<^verbatim>\<open>time.sleep\<close> changes no state; it raises \<^verbatim>\<open>ValueError\<close> for
  a negative duration. \<open>store_and_count\<close> is the part of the method after the sleep.
\<close>

definition store_and_count ::
  "node_node \<Rightarrow> string \<Rightarrow> int \<Rightarrow> transfer_node \<Rightarrow> chunk_node \<Rightarrow> pynum
     \<Rightarrow> node_node \<times> (py_error + bool)" where
  "store_and_count n file_id chunk_id transfer chunk available_bw =
     (let t1 = transfer\<lparr>chunks_node :=
                 store_chunk chunk_id (node_id_node n) (chunks_node transfer)\<rparr>;
          n1 = n\<lparr>active_transfers_node := AList.update file_id t1 (active_transfers_node n)\<rparr>
      in case py_add_scaled (network_utilization_node n) available_bw of
           Inl e \<Rightarrow> (n1, Inl e)
         | Inr u \<Rightarrow>
             (let n2 = n1\<lparr>network_utilization_node := u,
                          total_data_transferred_node :=
                            total_data_transferred_node n1 + size_node chunk\<rparr>
              in if list_all (\<lambda>c. chunk_status_node c = COMPLETED) (chunks_node t1)
                 then (complete_transfer n2 file_id t1, Inr True)
                 else (n2, Inr True)))"

definition process_chunk_transfer_node ::
  "node_node \<Rightarrow> string \<Rightarrow> int \<Rightarrow> string \<Rightarrow> node_node \<times> (py_error + bool)" where
  "process_chunk_transfer_node n file_id chunk_id source_node =
     (case map_of (active_transfers_node n) file_id of
        None \<Rightarrow> (n, Inr False)
      | Some transfer \<Rightarrow>
          (case find (\<lambda>c. chunk_id_node c = chunk_id) (chunks_node transfer) of
             None \<Rightarrow> (n, Inr False)
           | Some chunk \<Rightarrow>
               (case available_bandwidth n source_node of
                  Inl e \<Rightarrow> (n, Inl e)
                | Inr available_bw \<Rightarrow>
                    if num_value available_bw \<le> 0 then (n, Inr False)
                    else (case py_div (size_node chunk * 8) available_bw of
                            Inl e \<Rightarrow> (n, Inl e)
                          | Inr transfer_duration \<Rightarrow>
                              if transfer_duration < 0 then (n, Inl ValueError)
                              else store_and_count n file_id chunk_id transfer chunk
                                     available_bw))))"

definition get_storage_utilization_node :: "node_node \<Rightarrow> py_error + (int \<times> int \<times> rat \<times> int \<times> int)" where
  "get_storage_utilization_node n =
     (case percent (used_storage_node n) (total_storage_node n) of
        Inl e \<Rightarrow> Inl e
      | Inr p \<Rightarrow>
          Inr (used_storage_node n, total_storage_node n, p,
               int (length (stored_files_node n)), int (length (active_transfers_node n))))"

section \<open>The networks of the demonstration scripts\<close>

text \<open>The two nodes that the script at the end of \<^verbatim>\<open>main.py\<close> registers.\<close>

definition demo_network_main :: network_main where
  "demo_network_main =
     add_node_main
       (add_node_main StorageVirtualNetwork_main (StorageVirtualNode_main ''node1'' 4 16 500 1000))
       (StorageVirtualNode_main ''node2'' 8 32 1000 2000)"

text \<open>The two nodes that the script at the end of \<^verbatim>\<open>storage_virtual_network.py\<close> registers.\<close>

definition demo_network_net :: network_net where
  "demo_network_net =
     add_node_net
       (add_node_net StorageNetwork_net
          (StorageNode_net ''node1'' 4 16 (500 * 1024 * 1024) 1000000000))
       (StorageNode_net ''node2'' 8 32 (1000 * 1024 * 1024) 2000000000)"

text \<open>\<^verbatim>\<open>self.nodes[a].connections.get(b)\<close>, \<open>None\<close> also when \<open>a\<close> is not registered.\<close>

definition link_net :: "network_net \<Rightarrow> string \<Rightarrow> string \<Rightarrow> int option" where
  "link_net net a b =
     (case map_of (nodes_net net) a of None \<Rightarrow> None | Some n \<Rightarrow> map_of (connections_net n) b)"

text \<open>
  A node of \<^verbatim>\<open>storage_virtual_node.py\<close> as \<^verbatim>\<open>_init_("node2", 8, 32, 1, 1000)\<close> and
  \<^verbatim>\<open>add_connection("node1", 1000)\<close> leave it, with \<^verbatim>\<open>total_storage\<close> set to 900000 bytes.
\<close>

definition small_node :: node_node where
  "small_node =
     add_connection_node ((init_node ''node2'' 8 32 1 1000)\<lparr>total_storage_node := 900000\<rparr>)
       ''node1'' 1000"

text \<open>\<^verbatim>\<open>self.nodes[k].used_storage\<close> in the two networks, \<open>None\<close> when \<open>k\<close> is not registered.\<close>

definition used_storage_of_main :: "network_main \<Rightarrow> string \<Rightarrow> int option" where
  "used_storage_of_main net k = map_option used_storage_main (nodes_main net k)"

definition used_storage_of_net :: "network_net \<Rightarrow> string \<Rightarrow> int option" where
  "used_storage_of_net net k = map_option used_storage_net (map_of (nodes_net net) k)"

text \<open>The same node after \<^verbatim>\<open>initiate_file_transfer("f1", "a.bin", 500000)\<close>.\<close>

definition one_pending :: node_node where
  "one_pending = fst (initiate_file_transfer_node (\<lambda>s. s) small_node ''f1'' ''a.bin'' 500000)"

section \<open>What advancing a transfer is to do\<close>

text \<open>
  The words of the specification for \<^verbatim>\<open>advance_transfer\<close>, as functions on the chunk list of
  \<^verbatim>\<open>storage_virtual_network.py\<close>: the number of chunks that are not completed, the list
  with its first \<open>n\<close> pending chunks completed, lowest index first, and the transfer after
  \<open>n\<close> chunks are advanced, whose status becomes \<^verbatim>\<open>COMPLETED\<close> when this completes the last
  pending chunk.
\<close>

definition pending_chunks :: "chunk_info_net list \<Rightarrow> nat" where
  "pending_chunks cs = length (filter (\<lambda>c. chunk_status_net c \<noteq> COMPLETED) cs)"

fun complete_first :: "nat \<Rightarrow> chunk_info_net list \<Rightarrow> chunk_info_net list" where
  "complete_first 0 cs = cs"
| "complete_first (Suc n) [] = []"
| "complete_first (Suc n) (c # cs) =
     (if chunk_status_net c = COMPLETED then c # complete_first (Suc n) cs
      else c\<lparr>chunk_status_net := COMPLETED\<rparr> # complete_first n cs)"




section \<open>Storage accounting of a node\<close>

text \<open>
  C1. In \<^verbatim>\<open>main.py\<close> and in \<^verbatim>\<open>storage_virtual_network.py\<close>, \<^verbatim>\<open>allocate_storage\<close> returns
  true exactly when \<open>used_storage + size \<le> capacity\<close>; it then adds \<open>size\<close> to
  \<open>used_storage\<close> and changes nothing else; when \<open>used_storage + size > capacity\<close> it
  returns false and leaves the node as it was.
\<close>

theorem allocate_storage_exact:
  "snd (allocate_storage_main n sz) = (used_storage_main n + sz \<le> storage_capacity_main n)
   \<and> (used_storage_main n + sz \<le> storage_capacity_main n \<longrightarrow>
        fst (allocate_storage_main n sz) = n\<lparr>used_storage_main := used_storage_main n + sz\<rparr>)
   \<and> (storage_capacity_main n < used_storage_main n + sz \<longrightarrow>
        fst (allocate_storage_main n sz) = n)
   \<and> snd (allocate_storage_net m sz) = (used_storage_net m + sz \<le> total_storage_net m)
   \<and> (used_storage_net m + sz \<le> total_storage_net m \<longrightarrow>
        fst (allocate_storage_net m sz) = m\<lparr>used_storage_net := used_storage_net m + sz\<rparr>)
   \<and> (total_storage_net m < used_storage_net m + sz \<longrightarrow>
        fst (allocate_storage_net m sz) = m)"
  by (simp add: allocate_storage_main_def allocate_storage_net_def)

theorem allocate_storage_exact_witness:
  "used_storage_main (StorageVirtualNode_main ''a'' 4 16 500 1000) + 300
     \<le> storage_capacity_main (StorageVirtualNode_main ''a'' 4 16 500 1000)
   \<and> snd (allocate_storage_main (StorageVirtualNode_main ''a'' 4 16 500 1000) 300)
   \<and> used_storage_main (fst (allocate_storage_main (StorageVirtualNode_main ''a'' 4 16 500 1000) 300))
       = 300
   \<and> total_storage_net ((StorageNode_net ''b'' 8 32 500 2000)\<lparr>used_storage_net := 300\<rparr>)
       < used_storage_net ((StorageNode_net ''b'' 8 32 500 2000)\<lparr>used_storage_net := 300\<rparr>) + 300
   \<and> \<not> snd (allocate_storage_net ((StorageNode_net ''b'' 8 32 500 2000)\<lparr>used_storage_net := 300\<rparr>) 300)
   \<and> fst (allocate_storage_net ((StorageNode_net ''b'' 8 32 500 2000)\<lparr>used_storage_net := 300\<rparr>) 300)
       = (StorageNode_net ''b'' 8 32 500 2000)\<lparr>used_storage_net := 300\<rparr>"
  using allocate_storage_exact [of "StorageVirtualNode_main ''a'' 4 16 500 1000" 300
          "(StorageNode_net ''b'' 8 32 500 2000)\<lparr>used_storage_net := 300\<rparr>"]
  by (simp add: StorageVirtualNode_main_def StorageNode_net_def)

section \<open>Percentages and zero denominators\<close>

lemma percent_zero_denominator: "percent a 0 = Inl ZeroDivisionError"
  by (simp add: percent_def py_truediv_def)

lemma percent_no_zero_division: "b \<noteq> 0 \<Longrightarrow> percent a b \<noteq> Inl ZeroDivisionError"
  by (simp add: percent_def py_truediv_def Let_def split: sum.splits if_splits)

lemma guarded_percent_no_zero_division: "guarded_percent a b \<noteq> Inl ZeroDivisionError"
  using percent_no_zero_division [of b a] by (simp add: guarded_percent_def)

text \<open>
  In \<^verbatim>\<open>storage_virtual_network.py\<close> both reports guard the denominator: a node without
  capacity reports 0 percent, and the statistics never divide by zero.
\<close>

lemma get_storage_utilization_net_zero_capacity:
  "total_storage_net n = 0 \<Longrightarrow>
   get_storage_utilization_net n = Inr (used_storage_net n, 0, 0)"
  by (simp add: get_storage_utilization_net_def)

lemma get_network_stats_net_no_zero_division:
  "get_network_stats_net net \<noteq> Inl ZeroDivisionError"
  using guarded_percent_no_zero_division
  by (auto simp add: get_network_stats_net_def Let_def split: sum.splits)

text \<open>
  C8. \<^verbatim>\<open>get_storage_utilization\<close> of \<^verbatim>\<open>main.py\<close> has no such guard: on a node of capacity
  0 the division raises \<^verbatim>\<open>ZeroDivisionError\<close> and no percentage is returned.
\<close>

theorem get_storage_utilization_main_zero_capacity:
  "get_storage_utilization_main (StorageVirtualNode_main ''n'' 1 1 0 1) = Inl ZeroDivisionError"
  by (simp add: get_storage_utilization_main_def StorageVirtualNode_main_def
        percent_zero_denominator)

lemma get_progress_net_empty: "chunks_net t = [] \<Longrightarrow> get_progress_net t = Inr 0"
  by (simp add: get_progress_net_def)

text \<open>
  C10. In \<^verbatim>\<open>main.py\<close> a transfer of a file of 0 bytes has \<open>total_chunks = 0\<close>, and its
  \<^verbatim>\<open>get_progress\<close> raises \<^verbatim>\<open>ZeroDivisionError\<close> instead of returning 0.0.
\<close>

theorem get_progress_main_empty_file:
  "(case initiate_file_transfer_main demo_network_main ''node1'' ''node2'' ''empty.bin'' 0 of
      (net, out, Inr (Some t)) \<Rightarrow>
        total_chunks_main t = 0 \<and> get_progress_main t = Inl ZeroDivisionError
    | _ \<Rightarrow> False)"
  by (simp add: initiate_file_transfer_main_def demo_network_main_def add_node_main_def
        StorageVirtualNetwork_main_def StorageVirtualNode_main_def allocate_storage_main_def
        FileTransfer_main_def ceil_truediv_def py_truediv_def get_progress_main_def Let_def
        percent_zero_denominator)

section \<open>Failures of \<^verbatim>\<open>initiate_file_transfer\<close>\<close>







section \<open>Connecting nodes\<close>

lemma connect_nodes_net_absent:
  "map_of (nodes_net net) a = None \<or> map_of (nodes_net net) b = None \<Longrightarrow>
   connect_nodes_net net a b bw = (net, False)"
  by (auto simp add: connect_nodes_net_def split: option.splits)

lemma connect_nodes_net_present:
  assumes "map_of (nodes_net net) a = Some n1" and "map_of (nodes_net net) b = Some n2"
  shows "snd (connect_nodes_net net a b bw)"
    and "link_net (fst (connect_nodes_net net a b bw)) a b = Some bw"
    and "link_net (fst (connect_nodes_net net a b bw)) b a = Some bw"
  using assms
  by (auto simp add: connect_nodes_net_def link_net_def Let_def update_conv'
        add_connection_net_def split: option.splits)

lemma connect_nodes_main_records:
  "map_of (connections_main (connect_nodes_main net a b bw)) (a @ ''-'' @ b) = Some (bw, 0)"
  "nodes_main (connect_nodes_main net a b bw) = nodes_main net"
  by (simp_all add: connect_nodes_main_def update_conv')

text \<open>
  C7 as stated fails on \<^verbatim>\<open>main.py\<close>: connecting two ids of an empty network is not
  refused, and the link is recorded.
\<close>

theorem connect_nodes_main_counterexample:
  "nodes_main StorageVirtualNetwork_main ''b'' = None
   \<and> connections_main (connect_nodes_main StorageVirtualNetwork_main ''a'' ''b'' 1000)
       = [(''a-b'', 1000, 0)]
   \<and> connect_nodes_main StorageVirtualNetwork_main ''a'' ''b'' 1000 \<noteq> StorageVirtualNetwork_main"
  by (simp add: connect_nodes_main_def StorageVirtualNetwork_main_def)

text \<open>
  C7, as the code has it. \<^verbatim>\<open>StorageNetwork.connect_nodes\<close> of
  \<^verbatim>\<open>storage_virtual_network.py\<close> returns false and changes nothing when one of the ids is
  not registered; when both are, it returns true and each of the two nodes maps the other
  id to the bandwidth. \<^verbatim>\<open>StorageVirtualNetwork.connect_nodes\<close> of \<^verbatim>\<open>main.py\<close> makes no
  check: it records the bandwidth, with \<open>utilized = 0\<close>, under the key \<^verbatim>\<open>"id1-id2"\<close> of the
  network's own table and touches no node.
\<close>

theorem connect_nodes_behaviour:
  "(map_of (nodes_net net) a = None \<or> map_of (nodes_net net) b = None \<longrightarrow>
      connect_nodes_net net a b bw = (net, False))
   \<and> (map_of (nodes_net net) a \<noteq> None \<and> map_of (nodes_net net) b \<noteq> None \<longrightarrow>
        snd (connect_nodes_net net a b bw)
        \<and> link_net (fst (connect_nodes_net net a b bw)) a b = Some bw
        \<and> link_net (fst (connect_nodes_net net a b bw)) b a = Some bw)
   \<and> map_of (connections_main (connect_nodes_main net' a b bw)) (a @ ''-'' @ b) = Some (bw, 0)
   \<and> nodes_main (connect_nodes_main net' a b bw) = nodes_main net'"
  using connect_nodes_net_absent [of net a b bw] connect_nodes_net_present [of net a _ b _ bw]
    connect_nodes_main_records [of net' a b bw]
  by auto

theorem connect_nodes_behaviour_witness:
  "map_of (nodes_net demo_network_net) ''node3'' = None
   \<and> connect_nodes_net demo_network_net ''node1'' ''node3'' 1000000000 = (demo_network_net, False)
   \<and> map_of (nodes_net demo_network_net) ''node1'' \<noteq> None
   \<and> map_of (nodes_net demo_network_net) ''node2'' \<noteq> None
   \<and> snd (connect_nodes_net demo_network_net ''node1'' ''node2'' 1000000000)
   \<and> link_net (fst (connect_nodes_net demo_network_net ''node1'' ''node2'' 1000000000))
        ''node1'' ''node2'' = Some 1000000000
   \<and> link_net (fst (connect_nodes_net demo_network_net ''node1'' ''node2'' 1000000000))
        ''node2'' ''node1'' = Some 1000000000"
  using connect_nodes_behaviour [of demo_network_net "''node1''" "''node3''" 1000000000
          demo_network_main]
        connect_nodes_behaviour [of demo_network_net "''node1''" "''node2''" 1000000000
          demo_network_main]
  by (simp add: demo_network_net_def add_node_net_def StorageNetwork_net_def StorageNode_net_def)

section \<open>Transfer identifiers\<close>

text \<open>
  In \<^verbatim>\<open>main.py\<close> the id is \<^verbatim>\<open>f"transfer_{self.transfer_counter}"\<close> and the counter is then
  incremented: the decimal rendering is injective, so two successful initiations never
  return the same id as long as the counter is not set back between them.
\<close>

lemma digit_char_inj: "a < 10 \<Longrightarrow> b < 10 \<Longrightarrow> digit_char a = digit_char b \<Longrightarrow> a = b"
  by (simp add: digit_char_def char_of_eq_iff take_bit_nat_eq_self)

lemma str_nat_not_empty: "str_nat n \<noteq> []"
  by (subst str_nat.simps) simp

lemma str_nat_inj: "str_nat n = str_nat m \<Longrightarrow> n = m"
proof (induction n arbitrary: m rule: str_nat.induct)
  case (1 n)
  show ?case
  proof (cases "n < 10")
    case True
    then have n: "str_nat n = [digit_char n]" by (subst str_nat.simps) simp
    show ?thesis
    proof (cases "m < 10")
      case True
      then have "str_nat m = [digit_char m]" by (subst str_nat.simps) simp
      with n "1.prems" \<open>n < 10\<close> True show ?thesis by (simp add: digit_char_inj)
    next
      case False
      then have "str_nat m = str_nat (m div 10) @ [digit_char (m mod 10)]"
        by (subst str_nat.simps) simp
      with n "1.prems" str_nat_not_empty [of "m div 10"] show ?thesis by simp
    qed
  next
    case False
    then have n: "str_nat n = str_nat (n div 10) @ [digit_char (n mod 10)]"
      by (subst str_nat.simps) simp
    show ?thesis
    proof (cases "m < 10")
      case True
      then have "str_nat m = [digit_char m]" by (subst str_nat.simps) simp
      with n "1.prems" str_nat_not_empty [of "n div 10"] show ?thesis by simp
    next
      case m: False
      then have "str_nat m = str_nat (m div 10) @ [digit_char (m mod 10)]"
        by (subst str_nat.simps) simp
      with n "1.prems" have a: "str_nat (n div 10) = str_nat (m div 10)"
        and b: "digit_char (n mod 10) = digit_char (m mod 10)" by simp_all
      from "1.IH" [OF False a] have "n div 10 = m div 10" .
      moreover from b have "n mod 10 = m mod 10" by (simp add: digit_char_inj)
      ultimately show ?thesis by (metis div_mult_mod_eq)
    qed
  qed
qed

lemma str_nat_digits: "c \<in> set (str_nat n) \<Longrightarrow> c \<noteq> CHR ''-''"
proof (induction n rule: str_nat.induct)
  case (1 n)
  have d: "\<And>k. k < 10 \<Longrightarrow> digit_char k \<noteq> CHR ''-''"
    by (simp add: digit_char_def char_of_eq_iff take_bit_nat_eq_self) 
  show ?case
  proof (cases "n < 10")
    case True
    then have "str_nat n = [digit_char n]" by (subst str_nat.simps) simp
    with "1.prems" d [OF True] show ?thesis by simp
  next
    case False
    then have "str_nat n = str_nat (n div 10) @ [digit_char (n mod 10)]"
      by (subst str_nat.simps) simp
    with "1.prems" "1.IH" [OF False] d [of "n mod 10"] show ?thesis by auto
  qed
qed

lemma str_int_inj: "str_int i = str_int j \<Longrightarrow> i = j"
proof -
  assume a: "str_int i = str_int j"
  have hd: "\<And>n. hd (str_nat n) \<noteq> CHR ''-''"
    using str_nat_digits str_nat_not_empty by (metis hd_in_set)
  show ?thesis
  proof (cases "i < 0"; cases "j < 0")
    assume "i < 0" "j < 0"
    with a have "str_nat (nat (- i)) = str_nat (nat (- j))" by (simp add: str_int_def)
    then have "nat (- i) = nat (- j)" by (rule str_nat_inj)
    with \<open>i < 0\<close> \<open>j < 0\<close> show ?thesis by simp
  next
    assume "i < 0" "\<not> j < 0"
    with a have "CHR ''-'' # str_nat (nat (- i)) = str_nat (nat j)" by (simp add: str_int_def)
    with hd [of "nat j"] show ?thesis by (metis list.sel(1))
  next
    assume "\<not> i < 0" "j < 0"
    with a have "str_nat (nat i) = CHR ''-'' # str_nat (nat (- j))" by (simp add: str_int_def)
    with hd [of "nat i"] show ?thesis by (metis list.sel(1))
  next
    assume "\<not> i < 0" "\<not> j < 0"
    with a have "str_nat (nat i) = str_nat (nat j)" by (simp add: str_int_def)
    then have "nat i = nat j" by (rule str_nat_inj)
    with \<open>\<not> i < 0\<close> \<open>\<not> j < 0\<close> show ?thesis by simp
  qed
qed

lemma initiate_main_success:
  "initiate_file_transfer_main net s t name sz = (net', out, Inr (Some tr)) \<Longrightarrow>
   file_id_main tr = ''transfer_'' @ str_int (transfer_counter_main net)
   \<and> transfer_counter_main net' = transfer_counter_main net + 1"
  by (auto simp add: initiate_file_transfer_main_def FileTransfer_main_def Let_def
      split: option.splits prod.splits bool.splits sum.splits)

lemma initiate_main_distinct_ids:
  assumes "initiate_file_transfer_main net s t name sz = (net1, out1, Inr (Some tr1))"
    and "transfer_counter_main net1 \<le> transfer_counter_main net2"
    and "initiate_file_transfer_main net2 s' t' name' sz' = (net3, out2, Inr (Some tr2))"
  shows "file_id_main tr1 \<noteq> file_id_main tr2"
proof
  assume "file_id_main tr1 = file_id_main tr2"
  with initiate_main_success [OF assms(1)] initiate_main_success [OF assms(3)]
  have "str_int (transfer_counter_main net) = str_int (transfer_counter_main net2)" by simp
  then have "transfer_counter_main net = transfer_counter_main net2" by (rule str_int_inj)
  with initiate_main_success [OF assms(1)] assms(2) show False by simp
qed

text \<open>
  C9. In \<^verbatim>\<open>storage_virtual_network.py\<close> the id is the digest of the file name and the
  clock reading. Two initiations of the same file name at the same clock reading create
  two transfers with the same id, and the second takes the place of the first in
  \<^verbatim>\<open>transfer_operations\<close>.
\<close>

theorem initiate_net_same_instant_same_id:
  "(case initiate_file_transfer_net md5 now demo_network_net ''node1'' ''node2'' ''data.bin'' 1024 of
      (net1, Some r1) \<Rightarrow>
        (case initiate_file_transfer_net md5 now net1 ''node1'' ''node2'' ''data.bin'' 1024 of
           (net2, Some r2) \<Rightarrow>
             r1 \<noteq> r2
             \<and> file_id_net (objects_net net2 ! r1) = file_id_net (objects_net net2 ! r2)
             \<and> defaultdict_get (transfer_operations_net net2) ''node1''
                 = [(md5 (''data.bin-'' @ now), r2)]
         | _ \<Rightarrow> False)
    | _ \<Rightarrow> False)"
  by (simp add: initiate_file_transfer_net_def node_initiate_file_transfer_net_def
        demo_network_net_def add_node_net_def StorageNetwork_net_def StorageNode_net_def
        allocate_storage_net_def FileTransfer_net_def defaultdict_get_def Let_def)

section \<open>Chunking\<close>

subsection \<open>The rounded quotient is exact for numbers below \<open>2 ^ 53\<close>\<close>

text \<open>
  For positive \<open>a\<close> and \<open>b\<close> below \<open>2 ^ 53\<close> the binary64 quotient never rounds across an
  integer, so \<^verbatim>\<open>math.ceil(a / b)\<close> is the ceiling of the exact quotient.
\<close>

lemma round_half_even_le:
  assumes "0 < d" and "n \<le> N * d"
  shows "round_half_even n d \<le> N"
proof -
  have q: "n div d \<le> N"
    using assms by (metis div_mult_self_is_m zdiv_mono1 mult.commute nonzero_mult_div_cancel_right less_irrefl)
  show ?thesis
  proof (cases "n div d = N")
    case True
    have "n = (n div d) * d + n mod d" by simp
    with True assms have "n mod d \<le> 0" by (metis add_le_same_cancel1)
    moreover have "0 \<le> n mod d" using assms by simp
    ultimately have "n mod d = 0" by simp
    with True assms show ?thesis by (simp add: round_half_even_def Let_def)
  next
    case False
    with q have "n div d + 1 \<le> N" by simp
    then show ?thesis using q by (simp add: round_half_even_def Let_def)
  qed
qed

lemma round_half_even_gt:
  assumes "0 < d" and "(2 * N + 1) * d < 2 * n"
  shows "N + 1 \<le> round_half_even n d"
proof -
  have "N * d \<le> n" 
  proof (rule ccontr)
    assume "\<not> N * d \<le> n"
    then have "n + 1 \<le> N * d" by simp
    then have "2 * n + 2 \<le> 2 * N * d" by simp
    with assms show False by (simp add: algebra_simps)
  qed
  then have q: "N \<le> n div d"
    using assms(1) by (metis div_mult_self_is_m zdiv_mono1 mult.commute nonzero_mult_div_cancel_right less_irrefl)
  show ?thesis
  proof (cases "n div d = N")
    case True
    have "n = (n div d) * d + n mod d" by simp
    with True have "n = N * d + n mod d" by simp
    with assms(2) have "d < 2 * (n mod d)" by (simp add: algebra_simps)
    with True show ?thesis by (simp add: round_half_even_def Let_def)
  next
    case False
    with q have "N + 1 \<le> n div d" by simp
    then show ?thesis by (simp add: round_half_even_def Let_def)
  qed
qed

lemma quotient_exponent_lower:
  assumes "0 < a" and "0 < b"
  shows "(0 \<le> quotient_exponent a b \<longrightarrow> b * 2 ^ nat (quotient_exponent a b) \<le> a)
       \<and> (quotient_exponent a b < 0 \<longrightarrow> b \<le> a * 2 ^ nat (- quotient_exponent a b))"
proof -
  define d where "d = bitlen a - bitlen b"
  define t where "t = (if 0 \<le> d then b * 2 ^ nat d \<le> a else b \<le> a * 2 ^ nat (- d))"
  have e: "quotient_exponent a b = (if t then d else d - 1)"
    by (simp add: quotient_exponent_def d_def t_def Let_def)
  show ?thesis
  proof (cases t)
    case True
    with e show ?thesis by (auto simp add: t_def split: if_splits)
  next
    case False
    with e have e': "quotient_exponent a b = d - 1" by simp
    from bitlen_bounds [OF assms(1)] have la: "2 ^ nat (bitlen a - 1) \<le> a" by simp
    from bitlen_bounds [OF assms(2)] have lb: "b < 2 ^ nat (bitlen b)" by simp
    have la1: "1 \<le> bitlen a" using assms(1) bitlen_eq_zero_iff [of a] bitlen_nonneg [of a] by linarith
    have lb1: "1 \<le> bitlen b" using assms(2) bitlen_eq_zero_iff [of b] bitlen_nonneg [of b] by linarith
    show ?thesis
    proof (cases "0 \<le> d - 1")
      case True
      have "nat (bitlen b) + nat (d - 1) = nat (bitlen a - 1)"
        using True lb1 by (simp add: d_def nat_add_distrib [symmetric])
      then have "(2::int) ^ nat (bitlen b) * 2 ^ nat (d - 1) = 2 ^ nat (bitlen a - 1)"
        by (simp add: power_add [symmetric])
      moreover have "b * 2 ^ nat (d - 1) \<le> 2 ^ nat (bitlen b) * 2 ^ nat (d - 1)"
        using lb by (simp add: mult_right_mono)
      ultimately have "b * 2 ^ nat (d - 1) \<le> a" using la by linarith
      with True e' show ?thesis by simp
    next
      case False
      have "nat (bitlen a - 1) + nat (- (d - 1)) = nat (bitlen b)"
        using False la1 by (simp add: d_def nat_add_distrib [symmetric])
      then have "(2::int) ^ nat (bitlen a - 1) * 2 ^ nat (- (d - 1)) = 2 ^ nat (bitlen b)"
        by (simp add: power_add [symmetric])
      moreover have "2 ^ nat (bitlen a - 1) * 2 ^ nat (- (d - 1)) \<le> a * 2 ^ nat (- (d - 1))"
        using la by (simp add: mult_right_mono)
      ultimately have "b \<le> a * 2 ^ nat (- (d - 1))" using lb by linarith
      with False e' show ?thesis by simp
    qed
  qed
qed

lemma double_value_scaled: "double_value (m, - int k) = of_int m / of_int (2 ^ k)"
proof (cases "k = 0")
  case True
  then show ?thesis by (simp add: double_value_def)
next
  case False
  then have "\<not> 0 \<le> - int k" by simp
  then show ?thesis by (simp add: double_value_def)
qed

lemma nearest_double_scaled:
  assumes "0 < a" and "a < 2 ^ 53" and "0 < b" and "b < 2 ^ 53"
  shows "\<exists>k. nearest_double a b = (round_half_even (a * 2 ^ k) b, - int k) \<and> b < 2 * 2 ^ k"
proof -
  define e where "e = quotient_exponent a b"
  from quotient_exponent_lower [OF assms(1,3)]
  have lo1: "0 \<le> e \<Longrightarrow> b * 2 ^ nat e \<le> a" and lo2: "e < 0 \<Longrightarrow> b \<le> a * 2 ^ nat (- e)"
    by (simp_all add: e_def)
  have e52: "e \<le> 52"
  proof (rule ccontr)
    assume "\<not> e \<le> 52"
    then have "53 \<le> nat e" and "0 \<le> e" by simp_all
    then have "(2::int) ^ 53 \<le> 2 ^ nat e" by (intro power_increasing) simp_all
    also have "\<dots> \<le> b * 2 ^ nat e" using assms(3) by simp
    also have "\<dots> \<le> a" using lo1 \<open>0 \<le> e\<close> by simp
    finally show False using assms(2) by simp
  qed
  define q where "q = max (e - 52) (- 1074)"
  define k where "k = nat (- q)"
  have q0: "q \<le> 0" using e52 by (simp add: q_def)
  then have qk: "q = - int k" by (simp add: k_def)
  have nd0: "nearest_double a b
              = (if 0 \<le> q then round_half_even a (b * 2 ^ nat q)
                 else round_half_even (a * 2 ^ nat (- q)) b, q)"
    by (simp add: nearest_double_def Let_def e_def q_def)
  have nd: "nearest_double a b = (round_half_even (a * 2 ^ k) b, - int k)"
  proof (cases "q = 0")
    case True
    then have "k = 0" by (simp add: k_def)
    with True nd0 show ?thesis by simp
  next
    case False
    with q0 have "q < 0" by simp
    with nd0 show ?thesis by (simp add: k_def)
  qed
  have bound: "b < 2 * 2 ^ k"
  proof (cases "- 1074 \<le> e - 52")
    case True
    then have k: "k = nat (52 - e)" by (simp add: k_def q_def)
    show ?thesis
    proof (cases "0 \<le> e")
      case True
      have "nat e + k = 52" using True e52 k by simp
      then have s53: "nat e + Suc k = 53" by simp
      have "(2::int) ^ (nat e + Suc k) = 2 ^ nat e * (2 * 2 ^ k)"
        by (simp only: power_add power_Suc)
      then have "(2::int) ^ 53 = 2 ^ nat e * (2 * 2 ^ k)" unfolding s53 .
      with lo1 [OF True] assms(2) have "b * 2 ^ nat e < 2 ^ nat e * (2 * 2 ^ k)" by linarith
      then show ?thesis by (simp add: mult.commute)
    next
      case False
      then have ke: "k = 52 + nat (- e)" using k by simp
      have "a * 2 ^ nat (- e) < 2 ^ 53 * 2 ^ nat (- e)"
        using assms(2) by (simp add: mult_strict_right_mono)
      also have "\<dots> = 2 * 2 ^ k" by (simp add: ke power_add)
      finally show ?thesis using lo2 False by simp
    qed
  next
    case False
    then have "k = 1074" by (simp add: k_def q_def)
    moreover have "(2::int) ^ 53 \<le> 2 ^ 1074" by (intro power_increasing) simp_all
    ultimately show ?thesis using assms(4) by simp
  qed
  from nd bound show ?thesis by blast
qed

lemma ceil_truediv_exact:
  assumes "0 < a" and "a < 2 ^ 53" and "0 < b" and "b < 2 ^ 53"
  shows "ceil_truediv a b = Inr \<lceil>(of_int a :: rat) / of_int b\<rceil>"
proof -
  from nearest_double_scaled [OF assms] obtain k where
    nd: "nearest_double a b = (round_half_even (a * 2 ^ k) b, - int k)" and
    bound: "b < 2 * 2 ^ k" by blast
  define s :: int where "s = 2 ^ k"
  define m where "m = round_half_even (a * s) b"
  define c where "c = \<lceil>(of_int a :: rat) / of_int b\<rceil>"
  have s0: "0 < s" by (simp add: s_def)
  have bq: "(0::rat) < of_int b" using assms(3) by simp
  have "(of_int a :: rat) / of_int b \<le> of_int c" by (simp add: c_def)
  then have "(of_int a :: rat) \<le> of_int c * of_int b" using bq by (simp add: pos_divide_le_eq)
  then have up: "a \<le> c * b" by (metis of_int_le_iff of_int_mult)
  have "of_int c - 1 < (of_int a :: rat) / of_int b" unfolding c_def by linarith
  then have "(of_int c - 1) * of_int b < (of_int a :: rat)" using bq by (simp add: pos_less_divide_eq)
  then have "(of_int ((c - 1) * b) :: rat) < of_int a" by simp
  then have "(c - 1) * b < a" by (simp only: of_int_less_iff)
  then have lo: "(c - 1) * b + 1 \<le> a" by simp
  have "a * s \<le> (c * s) * b"
    using up s0 by (metis mult.assoc mult.commute mult_right_mono less_imp_le)
  from round_half_even_le [OF assms(3) this] have m_up: "m \<le> c * s" by (simp add: m_def)
  have "((c - 1) * b + 1) * s \<le> a * s" using lo s0 by (simp add: mult_right_mono)
  then have "2 * ((c - 1) * s) * b + 2 * s \<le> 2 * (a * s)" by (simp add: algebra_simps)
  moreover have "b < 2 * s" using bound by (simp add: s_def)
  ultimately have "(2 * ((c - 1) * s) + 1) * b < 2 * (a * s)" by (simp add: algebra_simps)
  from round_half_even_gt [OF assms(3) this] have m_lo: "(c - 1) * s + 1 \<le> m" by (simp add: m_def)
  define v :: rat where "v = of_int m / of_int s"
  have sq: "(0::rat) < of_int s" using s0 by simp
  have "(c - 1) * s < m" using m_lo by simp
  then have "(of_int ((c - 1) * s) :: rat) < of_int m" by (simp only: of_int_less_iff)
  then have v_lo: "of_int c - 1 < v" using sq by (simp add: v_def pos_less_divide_eq)
  have "(of_int m :: rat) \<le> of_int (c * s)" using m_up by (simp only: of_int_le_iff)
  then have v_up: "v \<le> of_int c" using sq by (simp add: v_def pos_divide_le_eq)
  have vc: "\<lceil>v\<rceil> = c" using v_lo v_up by (intro ceiling_unique) simp_all
  have "a \<le> a * b" using assms(1,3) by simp
  then have "(of_int a :: rat) / of_int b \<le> of_int a"
    using bq by (simp add: pos_divide_le_eq) (metis of_int_le_iff of_int_mult)
  then have "c \<le> a" unfolding c_def by (simp add: ceiling_le_iff)
  then have "v \<le> of_int a" using v_up by (meson of_int_le_iff order_trans)
  also have "\<dots> < 2 ^ 53" using assms(2) by (metis of_int_less_iff of_int_numeral of_int_power)
  also have "(2::rat) ^ 53 \<le> 2 ^ 1024" by (intro power_increasing) simp_all
  finally have no_ovf: "\<not> 2 ^ 1024 \<le> v" by simp
  have dv: "double_value (nearest_double a b) = v"
    by (simp add: nd double_value_scaled v_def m_def s_def)
  have "py_truediv a b = Inr v"
    using assms(1,3) no_ovf by (simp add: py_truediv_def dv Let_def)
  then show ?thesis by (simp add: ceil_truediv_def vc c_def [symmetric])
qed

lemma bitlen_numeral_step: "bitlen (numeral n) = bitlen (numeral n div 2) + 1"
  by (subst compute_bitlen) simp

lemma bitlen_one: "bitlen 1 = 1"
  by (subst compute_bitlen) simp

lemma qe_large: "quotient_exponent 11258999068426241 10485760 = 30"
  by (simp add: quotient_exponent_def Let_def bitlen_numeral_step bitlen_one)

lemma ceil_truediv_large: "ceil_truediv 11258999068426241 10485760 = Inr 1073741824"
  by (simp add: ceil_truediv_def py_truediv_def nearest_double_def qe_large
        round_half_even_def double_value_def Let_def)

subsection \<open>The chunks of a file\<close>

lemma sum_list_constant_prefix:
  "(\<And>i. i < n \<Longrightarrow> f i = c) \<Longrightarrow> sum_list (map f [0 ..< n]) = int n * (c::int)"
  by (induction n) (simp_all add: algebra_simps)

lemma generate_chunks_sizes:
  assumes "ceil_truediv file_size (calculate_chunk_size file_size) = Inr k"
  shows "\<exists>chunks. generate_chunks md5 file_id file_size = Inr chunks
           \<and> length chunks = nat k
           \<and> map size_node chunks
               = map (\<lambda>idx. min (calculate_chunk_size file_size)
                              (file_size - int idx * calculate_chunk_size file_size))
                     [0 ..< nat k]"
  using assms by (simp add: generate_chunks_def py_range_def comp_def Let_def)

text \<open>
  For a file of fewer than \<open>2 ^ 53\<close> bytes the chunk count is the ceiling of
  \<open>file_size / chunk_size\<close>, the last chunk holds the remainder, and the sizes sum to the
  file size.
\<close>

lemma sum_list_all_but_last:
  "(\<And>i. i < n \<Longrightarrow> f i = c) \<Longrightarrow> sum_list (map f [0 ..< Suc n]) = int n * (c::int) + f n"
  using sum_list_constant_prefix [of n f c] by simp

lemma calculate_chunk_size_cases:
  "calculate_chunk_size file_size
     = (if file_size < 10485760 then 524288 else if file_size < 104857600 then 2097152
        else 10485760)"
  by (simp add: calculate_chunk_size_def)

lemma calculate_chunk_size_bounds:
  "0 < calculate_chunk_size file_size" "calculate_chunk_size file_size < 2 ^ 53"
  by (simp_all add: calculate_chunk_size_def)

lemma generate_chunks_exact:
  assumes "0 < file_size" and "file_size < 2 ^ 53"
  defines "cs \<equiv> calculate_chunk_size file_size"
  defines "c \<equiv> \<lceil>(of_int file_size :: rat) / of_int cs\<rceil>"
  shows "\<exists>chunks. generate_chunks md5 file_id file_size = Inr chunks
           \<and> int (length chunks) = c
           \<and> chunks \<noteq> []
           \<and> size_node (last chunks) = file_size - (c - 1) * cs
           \<and> sum_list (map size_node chunks) = file_size"
proof -
  have cs0: "0 < cs" and cs53: "cs < 2 ^ 53"
    unfolding cs_def by (rule calculate_chunk_size_bounds)+
  have ce: "ceil_truediv file_size cs = Inr c"
    unfolding c_def by (rule ceil_truediv_exact [OF assms(1,2) cs0 cs53])
  have csq: "(0::rat) < of_int cs" using cs0 by simp
  have "(of_int file_size :: rat) / of_int cs \<le> of_int c" by (simp add: c_def)
  then have "(of_int file_size :: rat) \<le> of_int (c * cs)" using csq by (simp add: pos_divide_le_eq)
  then have up: "file_size \<le> c * cs" by (simp only: of_int_le_iff)
  have "of_int c - 1 < (of_int file_size :: rat) / of_int cs" unfolding c_def by linarith
  then have "(of_int ((c - 1) * cs) :: rat) < of_int file_size"
    using csq by (simp add: pos_less_divide_eq)
  then have lo: "(c - 1) * cs < file_size" by (simp only: of_int_less_iff)
  have c1: "1 \<le> c"
  proof (rule ccontr)
    assume "\<not> 1 \<le> c"
    then have "c \<le> 0" by simp
    then have "c * cs \<le> 0" using cs0 by (simp add: mult_le_0_iff)
    with up assms(1) show False by simp
  qed
  define n where "n = nat (c - 1)"
  have n: "nat c = Suc n" "int n = c - 1" using c1 by (simp_all add: n_def)
  from generate_chunks_sizes [of file_size c md5 file_id] ce
  obtain chunks where g: "generate_chunks md5 file_id file_size = Inr chunks"
    and l: "length chunks = Suc n"
    and m: "map size_node chunks
              = map (\<lambda>idx. min cs (file_size - int idx * cs)) [0 ..< Suc n]"
    unfolding cs_def [symmetric] n by blast
  have full: "min cs (file_size - int i * cs) = cs" if "i < n" for i
  proof -
    from that have "int i + 1 \<le> c - 1" using n(2) by simp
    then have "(int i + 1) * cs \<le> (c - 1) * cs" using cs0 by (simp add: mult_right_mono)
    with lo have "(int i + 1) * cs < file_size" by simp
    then show ?thesis by (simp add: algebra_simps)
  qed
  have "c = int n + 1" using n(2) by simp
  then have "c * cs = int n * cs + cs" by (simp add: algebra_simps)
  with up have "file_size - int n * cs \<le> cs" by simp
  then have lastc: "min cs (file_size - int n * cs) = file_size - (c - 1) * cs"
    using n(2) by simp
  have ne: "chunks \<noteq> []" using l by auto
  have "size_node (last chunks) = last (map size_node chunks)" using ne by (simp add: last_map)
  also have "\<dots> = min cs (file_size - int n * cs)" unfolding m by simp
  finally have lst: "size_node (last chunks) = file_size - (c - 1) * cs" using lastc by simp
  have "sum_list (map size_node chunks) = int n * cs + min cs (file_size - int n * cs)"
    unfolding m by (rule sum_list_all_but_last) (rule full)
  then have sm: "sum_list (map size_node chunks) = file_size"
    using lastc n(2) by simp
  from g l ne lst sm n show ?thesis by simp
qed

text \<open>
  From \<open>2 ^ 53\<close> bytes on the count can miss the ceiling, because \<^verbatim>\<open>_generate_chunks\<close>
  computes it as \<^verbatim>\<open>math.ceil(file_size / chunk_size)\<close> through a binary64 quotient. For a
  file of \<open>10 * 2 ^ 50 + 1\<close> bytes the quotient \<open>2 ^ 30 + 1 / 10485760\<close> rounds to \<open>2 ^ 30\<close>:
  the file gets \<open>2 ^ 30\<close> chunks of 10 MiB, one chunk fewer than the ceiling, and their sizes
  sum to one byte less than the file size.
\<close>

lemma generate_chunks_large_file:
  "(case generate_chunks md5 file_id 11258999068426241 of
      Inl e \<Rightarrow> False
    | Inr chunks \<Rightarrow>
        int (length chunks) = 1073741824
        \<and> sum_list (map size_node chunks) = 11258999068426240)
   \<and> \<lceil>(11258999068426241 :: rat) / 10485760\<rceil> = 1073741825"
proof -
  define n :: nat where "n = nat 1073741824"
  have cs: "calculate_chunk_size 11258999068426241 = 10485760"
    by (simp add: calculate_chunk_size_def)
  from generate_chunks_sizes [of 11258999068426241 1073741824 md5 file_id]
  obtain chunks where g: "generate_chunks md5 file_id 11258999068426241 = Inr chunks"
    and l: "length chunks = n"
    and m: "map size_node chunks
              = map (\<lambda>idx. min 10485760 (11258999068426241 - int idx * 10485760)) [0 ..< n]"
    unfolding cs n_def using ceil_truediv_large by blast
  have "sum_list (map (\<lambda>idx. min 10485760 (11258999068426241 - int idx * 10485760)) [0 ..< n])
          = int n * 10485760"
    by (rule sum_list_constant_prefix) (simp add: n_def)
  with m have s: "sum_list (map size_node chunks) = int n * 10485760" by simp
  have c: "\<lceil>(11258999068426241 :: rat) / 10485760\<rceil> = 1073741825"
    by (rule ceiling_unique) simp_all
  show ?thesis
    using l s c by (simp add: g n_def)
qed

section \<open>When storage is reserved\<close>

text \<open>Rules that evaluate the float arithmetic and the node operations on numerals.\<close>

lemmas float_eval =
  py_truediv_def nearest_double_def quotient_exponent_def round_half_even_def double_value_def
  round_quotient_def round_dyadic_def to_float_def float_add_def float_sub_def float_mul_def
  float_div_def py_sub_def py_min_def py_div_def py_add_scaled_def double_0_8_def num_value_def
  bitlen_numeral_step bitlen_one Let_def

lemma ceil_truediv_exact_div:
  "0 < a \<Longrightarrow> a < 2 ^ 53 \<Longrightarrow> 0 < b \<Longrightarrow> b < 2 ^ 53 \<Longrightarrow> ceil_truediv a b = Inr (- (- a div b))"
  by (simp add: ceil_truediv_exact ceiling_divide_eq_div)

lemmas node_eval =
  small_node_def init_node_def add_connection_node_def initiate_file_transfer_node_def
  generate_chunks_def calculate_chunk_size_def ceil_truediv_exact_div py_range_def
  process_chunk_transfer_node_def available_bandwidth_def store_and_count_def
  complete_transfer_def

lemma initiate_main_reserves:
  assumes "initiate_file_transfer_main net s t name sz = (net', out, Inr (Some tr))"
  shows "used_storage_of_main net t \<noteq> None"
    and "used_storage_of_main net' t = map_option (\<lambda>u. u + sz) (used_storage_of_main net t)"
    and "k \<noteq> t \<Longrightarrow> used_storage_of_main net' k = used_storage_of_main net k"
  using assms
  by (auto simp add: initiate_file_transfer_main_def used_storage_of_main_def Let_def
        allocate_storage_main_def
      split: option.splits prod.splits bool.splits sum.splits if_splits)

lemma process_main_nodes:
  "nodes_main (fst (process_file_transfer_main net s t fid steps)) = nodes_main net"
  by (simp add: process_file_transfer_main_def Let_def split: option.splits)

lemma initiate_net_reserves:
  assumes "initiate_file_transfer_net md5 now net s t name sz = (net', Some r)"
  shows "used_storage_of_net net t \<noteq> None"
    and "used_storage_of_net net' t = map_option (\<lambda>u. u + sz) (used_storage_of_net net t)"
    and "k \<noteq> t \<Longrightarrow> used_storage_of_net net' k = used_storage_of_net net k"
  using assms
  by (auto simp add: initiate_file_transfer_net_def node_initiate_file_transfer_net_def
        used_storage_of_net_def Let_def allocate_storage_net_def update_conv'
      split: option.splits prod.splits bool.splits sum.splits if_splits)

lemma process_net_nodes:
  "nodes_net (fst (process_file_transfer_net net s t fid steps)) = nodes_net net"
  by (simp add: process_file_transfer_net_def Let_def split: option.splits prod.splits bool.splits)

lemma initiate_node_used:
  "used_storage_node (fst (initiate_file_transfer_node md5 n fid name sz)) = used_storage_node n"
  by (simp add: initiate_file_transfer_node_def Let_def split: sum.splits)

lemma store_and_count_used:
  "store_and_count n fid cid tr ch av = (n', r) \<Longrightarrow>
   used_storage_node n' =
     (if r = Inr True \<and> list_all (\<lambda>c. chunk_status_node c = COMPLETED)
                           (store_chunk cid (node_id_node n) (chunks_node tr))
      then used_storage_node n + total_size_node tr else used_storage_node n)"
  by (auto simp add: store_and_count_def complete_transfer_def Let_def split: sum.splits if_splits)

lemma process_chunk_node_used:
  assumes "map_of (active_transfers_node n) fid = Some tr"
    and "process_chunk_transfer_node n fid cid src = (n', r)"
  shows "used_storage_node n' =
     (if r = Inr True \<and> list_all (\<lambda>c. chunk_status_node c = COMPLETED)
                           (store_chunk cid (node_id_node n) (chunks_node tr))
      then used_storage_node n + total_size_node tr else used_storage_node n)"
  using assms store_and_count_used [of n fid cid tr _ _ n' r]
  by (auto simp add: process_chunk_transfer_node_def split: option.splits sum.splits if_splits)

text \<open>
  C4 as stated fails on \<^verbatim>\<open>storage_virtual_node.py\<close>: a successful
  \<^verbatim>\<open>initiate_file_transfer\<close> of 500000 bytes leaves \<open>used_storage\<close> at 0, and the
  \<^verbatim>\<open>process_chunk_transfer\<close> that completes the only chunk raises it to 500000.
\<close>

theorem initiate_node_reserves_at_completion:
  "(case initiate_file_transfer_node (\<lambda>s. s) small_node ''f1'' ''a.bin'' 500000 of
      (n1, Inr (Some tr)) \<Rightarrow>
        used_storage_node small_node = 0 \<and> used_storage_node n1 = 0
        \<and> (case process_chunk_transfer_node n1 ''f1'' 0 ''node1'' of
              (n2, r) \<Rightarrow> r = Inr True \<and> used_storage_node n2 = 500000)
    | _ \<Rightarrow> False)"
  by (simp add: node_eval float_eval)

text \<open>
  C4, as the code has it. In \<^verbatim>\<open>main.py\<close> and in \<^verbatim>\<open>storage_virtual_network.py\<close> a successful
  \<^verbatim>\<open>initiate_file_transfer\<close> adds \<open>file_size\<close> to the \<open>used_storage\<close> of the target node, and
  \<^verbatim>\<open>process_file_transfer\<close> changes the \<open>used_storage\<close> of no node. The node of
  \<^verbatim>\<open>storage_virtual_node.py\<close> reserves at completion: its \<^verbatim>\<open>initiate_file_transfer\<close> leaves
  \<open>used_storage\<close> as it is, and \<^verbatim>\<open>process_chunk_transfer\<close> adds the \<open>total_size\<close> of the
  transfer exactly when it returns true and every chunk is then completed.
\<close>

theorem storage_reservation_time:
  "(\<forall>net' out tr.
       initiate_file_transfer_main net s t name sz = (net', out, Inr (Some tr)) \<longrightarrow>
       used_storage_of_main net t \<noteq> None
       \<and> used_storage_of_main net' t = map_option (\<lambda>u. u + sz) (used_storage_of_main net t))
   \<and> (\<forall>k. used_storage_of_main (fst (process_file_transfer_main net s t fid steps)) k
            = used_storage_of_main net k)
   \<and> (\<forall>net' r.
         initiate_file_transfer_net md5 now net2 s t name sz = (net', Some r) \<longrightarrow>
         used_storage_of_net net2 t \<noteq> None
         \<and> used_storage_of_net net' t = map_option (\<lambda>u. u + sz) (used_storage_of_net net2 t))
   \<and> (\<forall>k. used_storage_of_net (fst (process_file_transfer_net net2 s t fid steps)) k
            = used_storage_of_net net2 k)
   \<and> used_storage_node (fst (initiate_file_transfer_node md5 n fid name sz)) = used_storage_node n
   \<and> (\<forall>tr n' r.
         map_of (active_transfers_node n) fid = Some tr
         \<and> process_chunk_transfer_node n fid cid src = (n', r) \<longrightarrow>
         used_storage_node n' =
           (if r = Inr True \<and> list_all (\<lambda>c. chunk_status_node c = COMPLETED)
                                 (store_chunk cid (node_id_node n) (chunks_node tr))
            then used_storage_node n + total_size_node tr else used_storage_node n))"
proof (intro conjI allI impI)
  fix net' out tr
  assume a: "initiate_file_transfer_main net s t name sz = (net', out, Inr (Some tr))"
  show "used_storage_of_main net t \<noteq> None" by (rule initiate_main_reserves(1) [OF a])
  show "used_storage_of_main net' t = map_option (\<lambda>u. u + sz) (used_storage_of_main net t)"
    by (rule initiate_main_reserves(2) [OF a])
next
  fix k
  show "used_storage_of_main (fst (process_file_transfer_main net s t fid steps)) k
          = used_storage_of_main net k"
    by (simp add: used_storage_of_main_def process_main_nodes)
next
  fix net' r
  assume a: "initiate_file_transfer_net md5 now net2 s t name sz = (net', Some r)"
  show "used_storage_of_net net2 t \<noteq> None" by (rule initiate_net_reserves(1) [OF a])
  show "used_storage_of_net net' t = map_option (\<lambda>u. u + sz) (used_storage_of_net net2 t)"
    by (rule initiate_net_reserves(2) [OF a])
next
  fix k
  show "used_storage_of_net (fst (process_file_transfer_net net2 s t fid steps)) k
          = used_storage_of_net net2 k"
    by (simp add: used_storage_of_net_def process_net_nodes)
next
  show "used_storage_node (fst (initiate_file_transfer_node md5 n fid name sz))
          = used_storage_node n"
    by (rule initiate_node_used)
next
  fix tr n' r
  assume "map_of (active_transfers_node n) fid = Some tr
          \<and> process_chunk_transfer_node n fid cid src = (n', r)"
  then show "used_storage_node n' =
           (if r = Inr True \<and> list_all (\<lambda>c. chunk_status_node c = COMPLETED)
                                 (store_chunk cid (node_id_node n) (chunks_node tr))
            then used_storage_node n + total_size_node tr else used_storage_node n)"
    using process_chunk_node_used by blast
qed

theorem storage_reservation_time_witness:
  "(\<exists>net' out tr.
       initiate_file_transfer_main demo_network_main ''node1'' ''node2'' ''a.bin'' 300
         = (net', out, Inr (Some tr))
       \<and> used_storage_of_main demo_network_main ''node2'' = Some 0
       \<and> used_storage_of_main net' ''node2'' = Some 300)
   \<and> (\<exists>net' r.
         initiate_file_transfer_net (\<lambda>s. s) ''0.5'' demo_network_net ''node1'' ''node2'' ''a.bin'' 300
           = (net', Some r)
         \<and> used_storage_of_net demo_network_net ''node2'' = Some 0
         \<and> used_storage_of_net net' ''node2'' = Some 300)
   \<and> (\<exists>tr n'.
         map_of (active_transfers_node one_pending) ''f1'' = Some tr
         \<and> process_chunk_transfer_node one_pending ''f1'' 0 ''node1'' = (n', Inr True)
         \<and> used_storage_node one_pending = 0
         \<and> used_storage_node n' = 500000)"
  using storage_reservation_time [of demo_network_main "''node1''" "''node2''" "''a.bin''" 300
          "''f1''" 1 "\<lambda>s. s" "''0.5''" demo_network_net one_pending 0 "''node1''"]
  by (simp add: demo_network_main_def demo_network_net_def add_node_main_def add_node_net_def
        StorageVirtualNetwork_main_def StorageNetwork_net_def StorageVirtualNode_main_def
        StorageNode_net_def used_storage_of_main_def used_storage_of_net_def
        initiate_file_transfer_main_def allocate_storage_main_def FileTransfer_main_def
        initiate_file_transfer_net_def node_initiate_file_transfer_net_def
        allocate_storage_net_def FileTransfer_net_def
        one_pending_def node_eval float_eval)

section \<open>The capacity bound\<close>

text \<open>
  C6. On the node of \<^verbatim>\<open>storage_virtual_node.py\<close> two transfers of 500000 bytes are both
  accepted by a node of 900000 bytes, since neither is counted before it completes; once
  both have completed, \<open>used_storage\<close> is 1000000 and exceeds the capacity.
\<close>

theorem overcommit_node:
  "(case initiate_file_transfer_node (\<lambda>s. s) small_node ''f1'' ''a.bin'' 500000 of
      (n1, Inr (Some t1)) \<Rightarrow>
        (case initiate_file_transfer_node (\<lambda>s. s) n1 ''f2'' ''b.bin'' 500000 of
           (n2, Inr (Some t2)) \<Rightarrow>
             (case process_chunk_transfer_node n2 ''f1'' 0 ''node1'' of
                (n3, r3) \<Rightarrow>
                  (case process_chunk_transfer_node n3 ''f2'' 0 ''node1'' of
                     (n4, r4) \<Rightarrow>
                       r3 = Inr True \<and> r4 = Inr True
                       \<and> used_storage_node n4 = 1000000 \<and> total_storage_node n4 = 900000))
         | _ \<Rightarrow> False)
    | _ \<Rightarrow> False)"
  by (simp add: node_eval float_eval)

section \<open>Advancing a transfer\<close>

subsection \<open>The chunk loop of \<^verbatim>\<open>storage_virtual_network.py\<close>\<close>

lemma complete_first_Nil [simp]: "complete_first n [] = []"
  by (cases n) simp_all



lemma length_complete_first [simp]: "length (complete_first n cs) = length cs"
  by (induction n cs rule: complete_first.induct) simp_all

lemma complete_first_ids [simp]:
  "map chunk_id_net (complete_first n cs) = map chunk_id_net cs"
  by (induction n cs rule: complete_first.induct) simp_all






lemma pending_Nil [simp]: "pending_chunks [] = 0"
  by (simp add: pending_chunks_def)




lemma defaultdict_get_present:
  "map_of (defaultdict_get d k) x = Some r \<Longrightarrow> map_of d k = Some (defaultdict_get d k)"
  by (auto simp add: defaultdict_get_def split: option.splits)







lemma FileTransfer_net_distinct_ids:
  assumes "FileTransfer_net file_id file_name file_size source chunk_size = Inr t"
  shows "distinct (map chunk_id_net (chunks_net t))"
proof -
  from assms have "map chunk_id_net (chunks_net t)
      = map (\<lambda>idx. file_id @ ''_chunk_'' @ str_nat idx)
            (py_range ((file_size + chunk_size - 1) div chunk_size))"
    by (auto simp add: FileTransfer_net_def Let_def comp_def split: if_splits)
  then show ?thesis
    by (auto simp add: distinct_map inj_on_def py_range_def dest: str_nat_inj)
qed



subsection \<open>The demonstration networks\<close>














subsection \<open>The behaviour of \<^verbatim>\<open>process_file_transfer\<close>\<close>




section \<open>The chunking of the three files\<close>

text \<open>
  The sizes \<open>min cs (file_size - idx * cs)\<close> for \<open>idx < c\<close>, when \<open>c\<close> is the ceiling of
  \<open>file_size / cs\<close>: all but the last are \<open>cs\<close>, and they sum to the file size. The integer
  count \<^verbatim>\<open>(file_size + chunk_size - 1) // chunk_size\<close> of \<^verbatim>\<open>storage_virtual_network.py\<close> is
  that ceiling.
\<close>

lemma chunk_sizes:
  assumes cs0: "0 < cs" and fs0: "0 < file_size"
    and lo: "(c - 1) * cs < file_size" and up: "file_size \<le> c * cs"
  shows "1 \<le> c"
    and "sum_list (map (\<lambda>idx. min cs (file_size - int idx * cs)) [0 ..< nat c]) = file_size"
    and "last (map (\<lambda>idx. min cs (file_size - int idx * cs)) [0 ..< nat c])
           = file_size - (c - 1) * cs"
proof -
  show c1: "1 \<le> c"
  proof (rule ccontr)
    assume "\<not> 1 \<le> c"
    then have "c \<le> 0" by simp
    then have "c * cs \<le> 0" using cs0 by (simp add: mult_le_0_iff)
    with up fs0 show False by simp
  qed
  define n where "n = nat (c - 1)"
  have n: "nat c = Suc n" "int n = c - 1" using c1 by (simp_all add: n_def)
  have full: "min cs (file_size - int i * cs) = cs" if "i < n" for i
  proof -
    from that have "int i + 1 \<le> c - 1" using n(2) by simp
    then have "(int i + 1) * cs \<le> (c - 1) * cs" using cs0 by (simp add: mult_right_mono)
    with lo have "(int i + 1) * cs < file_size" by simp
    then show ?thesis by (simp add: algebra_simps)
  qed
  have "c = int n + 1" using n(2) by simp
  then have "c * cs = int n * cs + cs" by (simp add: algebra_simps)
  with up have "file_size - int n * cs \<le> cs" by simp
  then have lastc: "min cs (file_size - int n * cs) = file_size - (c - 1) * cs"
    using n(2) by simp
  have "sum_list (map (\<lambda>idx. min cs (file_size - int idx * cs)) [0 ..< Suc n])
          = int n * cs + min cs (file_size - int n * cs)"
    by (rule sum_list_all_but_last) (rule full)
  then show "sum_list (map (\<lambda>idx. min cs (file_size - int idx * cs)) [0 ..< nat c]) = file_size"
    using lastc n by simp
  show "last (map (\<lambda>idx. min cs (file_size - int idx * cs)) [0 ..< nat c])
           = file_size - (c - 1) * cs"
    using lastc n by simp
qed

lemma floor_div_ceiling:
  assumes "0 < cs"
  shows "(file_size + cs - 1) div cs = \<lceil>(of_int file_size :: rat) / of_int cs\<rceil>"
proof -
  have "\<lceil>(of_int file_size :: rat) / of_int cs\<rceil> = - (- file_size div cs)"
    by (rule ceiling_divide_eq_div)
  also have "\<dots> = (file_size + cs - 1) div cs"
  proof -
    have "- file_size div cs = - ((file_size + cs - 1) div cs)"
    proof (rule int_div_pos_eq [of _ cs _ "cs - 1 - (file_size + cs - 1) mod cs"])
      show "- file_size = cs * - ((file_size + cs - 1) div cs) + (cs - 1 - (file_size + cs - 1) mod cs)"
      proof -
        have "file_size + cs - 1 = cs * ((file_size + cs - 1) div cs) + (file_size + cs - 1) mod cs"
          by simp
        then show ?thesis by (simp add: algebra_simps)
      qed
      show "0 \<le> cs - 1 - (file_size + cs - 1) mod cs"
        using assms pos_mod_bound [of cs "file_size + cs - 1"] by linarith
      show "cs - 1 - (file_size + cs - 1) mod cs < cs"
        using assms pos_mod_sign [of cs "file_size + cs - 1"] by linarith
    qed
    then show ?thesis by simp
  qed
  finally show ?thesis by simp
qed

lemma initiate_main_chunking:
  assumes "initiate_file_transfer_main net s t name file_size = (net', out, Inr (Some tr))"
  shows "chunk_size_main tr = 1048576"
    and "0 < file_size \<Longrightarrow> file_size < 2 ^ 53 \<Longrightarrow>
         total_chunks_main tr = \<lceil>(of_int file_size :: rat) / 1048576\<rceil>"
proof -
  from assms have ft: "FileTransfer_main (''transfer_'' @ str_int (transfer_counter_main net))
      s t name file_size 1048576 = Inr tr"
    by (auto simp add: initiate_file_transfer_main_def Let_def
        split: option.splits prod.splits bool.splits sum.splits)
  then show "chunk_size_main tr = 1048576"
    by (auto simp add: FileTransfer_main_def split: sum.splits)
  assume "0 < file_size" and "file_size < 2 ^ 53"
  then have "ceil_truediv file_size 1048576 = Inr \<lceil>(of_int file_size :: rat) / of_int 1048576\<rceil>"
    by (intro ceil_truediv_exact) simp_all
  with ft show "total_chunks_main tr = \<lceil>(of_int file_size :: rat) / 1048576\<rceil>"
    by (auto simp add: FileTransfer_main_def split: sum.splits)
qed

lemma node_initiate_net_chunking:
  assumes "node_initiate_file_transfer_net n objs file_id file_name file_size source
             = (n', objs', Some r)"
  shows "chunk_size_net (objs' ! r) = 1048576"
    and "0 < file_size \<Longrightarrow>
         int (length (chunks_net (objs' ! r))) = \<lceil>(of_int file_size :: rat) / 1048576\<rceil>
         \<and> chunks_net (objs' ! r) \<noteq> []
         \<and> size_net (last (chunks_net (objs' ! r)))
             = file_size - (\<lceil>(of_int file_size :: rat) / 1048576\<rceil> - 1) * 1048576
         \<and> sum_list (map size_net (chunks_net (objs' ! r))) = file_size"
proof -
  define c where "c = (file_size + 1048576 - 1) div 1048576"
  define sizes where "sizes = map (\<lambda>idx. min 1048576 (file_size - int idx * 1048576)) [0 ..< nat c]"
  from assms have cs: "chunk_size_net (objs' ! r) = 1048576"
    and m: "map size_net (chunks_net (objs' ! r)) = sizes"
    by (auto simp add: node_initiate_file_transfer_net_def FileTransfer_net_def Let_def
          comp_def py_range_def sizes_def c_def
        split: prod.splits bool.splits)
  show "chunk_size_net (objs' ! r) = 1048576" by (rule cs)
  assume fs0: "0 < file_size"
  have ce: "c = \<lceil>(of_int file_size :: rat) / of_int 1048576\<rceil>"
    unfolding c_def by (rule floor_div_ceiling) simp
  have "(of_int file_size :: rat) / of_int 1048576 \<le> of_int c" by (simp add: ce)
  then have "(of_int file_size :: rat) \<le> of_int (c * 1048576)" by (simp add: pos_divide_le_eq)
  then have up: "file_size \<le> c * 1048576" by (simp only: of_int_le_iff)
  have "of_int c - 1 < (of_int file_size :: rat) / of_int 1048576" unfolding ce by linarith
  then have "(of_int ((c - 1) * 1048576) :: rat) < of_int file_size"
    by (simp add: pos_less_divide_eq)
  then have lo: "(c - 1) * 1048576 < file_size" by (simp only: of_int_less_iff)
  note f = chunk_sizes [of 1048576 file_size c, OF _ fs0 lo up, folded sizes_def]
  have c1: "1 \<le> c" by (rule f(1)) simp
  have sm: "sum_list sizes = file_size" by (rule f(2)) simp
  have ls: "last sizes = file_size - (c - 1) * 1048576" by (rule f(3)) simp
  have len: "length (chunks_net (objs' ! r)) = nat c"
    using arg_cong [OF m, of length] by (simp add: sizes_def)
  have ne: "chunks_net (objs' ! r) \<noteq> []" using len c1 by auto
  have "size_net (last (chunks_net (objs' ! r))) = last (map size_net (chunks_net (objs' ! r)))"
    using ne by (simp add: last_map)
  then have lst: "size_net (last (chunks_net (objs' ! r))) = file_size - (c - 1) * 1048576"
    by (simp only: m ls)
  from len c1 ne lst sm m ce
  show "int (length (chunks_net (objs' ! r))) = \<lceil>(of_int file_size :: rat) / 1048576\<rceil>
         \<and> chunks_net (objs' ! r) \<noteq> []
         \<and> size_net (last (chunks_net (objs' ! r)))
             = file_size - (\<lceil>(of_int file_size :: rat) / 1048576\<rceil> - 1) * 1048576
         \<and> sum_list (map size_net (chunks_net (objs' ! r))) = file_size"
    by simp
qed

text \<open>
  C3 as stated fails on \<^verbatim>\<open>main.py\<close>: \<^verbatim>\<open>initiate_file_transfer\<close> builds every
  \<^verbatim>\<open>FileTransfer\<close> with the default chunk size of 1 MiB, so a file below 10 MiB is not cut
  into chunks of 512 KiB, and a file of 5 MiB counts 5 chunks where the ceiling for
  512 KiB is 10.
\<close>

theorem chunk_size_main_counterexample:
  "(case initiate_file_transfer_main demo_network_main ''node1'' ''node2'' ''a.bin'' 600 of
      (net, out, Inr (Some t)) \<Rightarrow> chunk_size_main t = 1048576
    | _ \<Rightarrow> False)
   \<and> calculate_chunk_size 600 = 524288
   \<and> (case FileTransfer_main ''transfer_0'' ''node1'' ''node2'' ''a.bin'' 5242880 (1024 * 1024) of
        Inr t \<Rightarrow> chunk_size_main t = 1048576 \<and> total_chunks_main t = 5
      | Inl e \<Rightarrow> False)
   \<and> calculate_chunk_size 5242880 = 524288
   \<and> \<lceil>(5242880 :: rat) / 524288\<rceil> = 10"
  by (simp add: initiate_file_transfer_main_def demo_network_main_def add_node_main_def
        StorageVirtualNetwork_main_def StorageVirtualNode_main_def allocate_storage_main_def
        FileTransfer_main_def ceil_truediv_exact_div calculate_chunk_size_def Let_def)

text \<open>
  C3, as the code has it. \<^verbatim>\<open>_calculate_chunk_size\<close> of \<^verbatim>\<open>storage_virtual_node.py\<close> returns
  512 KiB below 10 MiB, 2 MiB below 100 MiB and 10 MiB otherwise, and for a file of more
  than 0 and fewer than \<open>2 ^ 53\<close> bytes \<^verbatim>\<open>_generate_chunks\<close> makes the ceiling of
  \<open>file_size / chunk_size\<close> chunks, the last of size
  \<open>file_size - (num_chunks - 1) * chunk_size\<close>, whose sizes sum to \<open>file_size\<close>. The
  transfers of \<^verbatim>\<open>main.py\<close> and of \<^verbatim>\<open>storage_virtual_network.py\<close> always have a chunk size of
  1 MiB: in \<^verbatim>\<open>main.py\<close> \<open>total_chunks\<close> is the ceiling of \<open>file_size / 1 MiB\<close> for a file of
  more than 0 and fewer than \<open>2 ^ 53\<close> bytes; in \<^verbatim>\<open>storage_virtual_network.py\<close> a file of
  more than 0 bytes gets that many chunks, the last holding the remainder, whose sizes
  sum to \<open>file_size\<close>.
\<close>

theorem chunking_policy:
  "calculate_chunk_size file_size
     = (if file_size < 10485760 then 524288 else if file_size < 104857600 then 2097152
        else 10485760)
   \<and> (0 < file_size \<and> file_size < 2 ^ 53 \<longrightarrow>
        (\<exists>chunks. generate_chunks md5 file_id file_size = Inr chunks
           \<and> int (length chunks)
               = \<lceil>(of_int file_size :: rat) / of_int (calculate_chunk_size file_size)\<rceil>
           \<and> chunks \<noteq> []
           \<and> size_node (last chunks)
               = file_size
                 - (\<lceil>(of_int file_size :: rat) / of_int (calculate_chunk_size file_size)\<rceil> - 1)
                   * calculate_chunk_size file_size
           \<and> sum_list (map size_node chunks) = file_size))
   \<and> (\<forall>net' out tr.
         initiate_file_transfer_main net s t name file_size = (net', out, Inr (Some tr)) \<longrightarrow>
         chunk_size_main tr = 1048576
         \<and> (0 < file_size \<and> file_size < 2 ^ 53 \<longrightarrow>
              total_chunks_main tr = \<lceil>(of_int file_size :: rat) / 1048576\<rceil>))
   \<and> (\<forall>n' objs' r.
         node_initiate_file_transfer_net n objs file_id name file_size s = (n', objs', Some r) \<longrightarrow>
         chunk_size_net (objs' ! r) = 1048576
         \<and> (0 < file_size \<longrightarrow>
              int (length (chunks_net (objs' ! r))) = \<lceil>(of_int file_size :: rat) / 1048576\<rceil>
              \<and> chunks_net (objs' ! r) \<noteq> []
              \<and> size_net (last (chunks_net (objs' ! r)))
                  = file_size - (\<lceil>(of_int file_size :: rat) / 1048576\<rceil> - 1) * 1048576
              \<and> sum_list (map size_net (chunks_net (objs' ! r))) = file_size))"
proof (intro conjI impI allI)
  show "calculate_chunk_size file_size
     = (if file_size < 10485760 then 524288 else if file_size < 104857600 then 2097152
        else 10485760)"
    by (rule calculate_chunk_size_cases)
next
  assume "0 < file_size \<and> file_size < 2 ^ 53"
  then have "0 < file_size" and "file_size < 2 ^ 53" by simp_all
  then show "\<exists>chunks. generate_chunks md5 file_id file_size = Inr chunks
           \<and> int (length chunks)
               = \<lceil>(of_int file_size :: rat) / of_int (calculate_chunk_size file_size)\<rceil>
           \<and> chunks \<noteq> []
           \<and> size_node (last chunks)
               = file_size
                 - (\<lceil>(of_int file_size :: rat) / of_int (calculate_chunk_size file_size)\<rceil> - 1)
                   * calculate_chunk_size file_size
           \<and> sum_list (map size_node chunks) = file_size"
    by (rule generate_chunks_exact)
next
  fix net' out tr
  assume a: "initiate_file_transfer_main net s t name file_size = (net', out, Inr (Some tr))"
  show "chunk_size_main tr = 1048576" by (rule initiate_main_chunking(1) [OF a])
  assume "0 < file_size \<and> file_size < 2 ^ 53"
  then show "total_chunks_main tr = \<lceil>(of_int file_size :: rat) / 1048576\<rceil>"
    using initiate_main_chunking(2) [OF a] by simp
next
  fix n' objs' r
  assume a: "node_initiate_file_transfer_net n objs file_id name file_size s = (n', objs', Some r)"
  show "chunk_size_net (objs' ! r) = 1048576" by (rule node_initiate_net_chunking(1) [OF a])
  assume p: "0 < file_size"
  note c = node_initiate_net_chunking(2) [OF a p]
  from c show "int (length (chunks_net (objs' ! r))) = \<lceil>(of_int file_size :: rat) / 1048576\<rceil>"
    by (rule conjunct1)
  from c show "chunks_net (objs' ! r) \<noteq> []" by (rule conjunct2 [THEN conjunct1])
  from c show "size_net (last (chunks_net (objs' ! r)))
                  = file_size - (\<lceil>(of_int file_size :: rat) / 1048576\<rceil> - 1) * 1048576"
    by (rule conjunct2 [THEN conjunct2, THEN conjunct1])
  from c show "sum_list (map size_net (chunks_net (objs' ! r))) = file_size"
    by (rule conjunct2 [THEN conjunct2, THEN conjunct2])
qed

lemma initiate_main_600:
  "\<exists>net' out tr. initiate_file_transfer_main demo_network_main ''node1'' ''node2'' ''a.bin'' 600
                    = (net', out, Inr (Some tr))"
  by (simp add: initiate_file_transfer_main_def demo_network_main_def add_node_main_def
        StorageVirtualNetwork_main_def StorageVirtualNode_main_def allocate_storage_main_def
        FileTransfer_main_def ceil_truediv_exact_div Let_def)

lemma node_initiate_net_5MiB:
  "\<exists>n' objs' r. node_initiate_file_transfer_net
                    (StorageNode_net ''node2'' 8 32 (1000 * 1024 * 1024) 2000000000) []
                    ''a.bin-0.5'' ''a.bin'' 5242880 ''node1'' = (n', objs', Some r)"
  by (simp add: node_initiate_file_transfer_net_def StorageNode_net_def allocate_storage_net_def
        FileTransfer_net_def Let_def)

theorem chunking_policy_witness:
  "(\<exists>chunks. generate_chunks (\<lambda>s. s) ''f1'' 5242880 = Inr chunks
       \<and> int (length chunks) = 10 \<and> size_node (last chunks) = 524288
       \<and> sum_list (map size_node chunks) = 5242880)
   \<and> (\<exists>net' out tr.
         initiate_file_transfer_main demo_network_main ''node1'' ''node2'' ''a.bin'' 600
           = (net', out, Inr (Some tr))
         \<and> chunk_size_main tr = 1048576 \<and> total_chunks_main tr = 1)
   \<and> (\<exists>n' objs' r.
         node_initiate_file_transfer_net
           (StorageNode_net ''node2'' 8 32 (1000 * 1024 * 1024) 2000000000) []
           ''a.bin-0.5'' ''a.bin'' 5242880 ''node1'' = (n', objs', Some r)
         \<and> chunk_size_net (objs' ! r) = 1048576
         \<and> int (length (chunks_net (objs' ! r))) = 5
         \<and> sum_list (map size_net (chunks_net (objs' ! r))) = 5242880)"
proof -
  have cs: "calculate_chunk_size 5242880 = 524288" by (simp add: calculate_chunk_size_def)
  have c10: "\<lceil>(5242880 :: rat) / 524288\<rceil> = 10" by simp
  have c5: "\<lceil>(5242880 :: rat) / 1048576\<rceil> = 5" by simp
  have c1: "\<lceil>(600 :: rat) / 1048576\<rceil> = 1" by (rule ceiling_unique) simp_all
  have r: "(0::int) < 5242880 \<and> (5242880::int) < 2 ^ 53" by simp
  from chunking_policy [of 5242880 "\<lambda>s. s" "''f1''", THEN conjunct2, THEN conjunct1,
      rule_format, OF r]
  obtain chunks where g: "generate_chunks (\<lambda>s. s) ''f1'' 5242880 = Inr chunks"
    and l: "int (length chunks) = \<lceil>(of_int 5242880 :: rat) / of_int (calculate_chunk_size 5242880)\<rceil>"
    and la: "size_node (last chunks)
               = 5242880 - (\<lceil>(of_int 5242880 :: rat) / of_int (calculate_chunk_size 5242880)\<rceil> - 1)
                   * calculate_chunk_size 5242880"
    and sm: "sum_list (map size_node chunks) = 5242880"
    by blast
  from l have l10: "int (length chunks) = 10" by (simp add: cs)
  from la have la1: "size_node (last chunks) = 524288" by (simp add: cs)
  from g l10 la1 sm have w1: "\<exists>chunks. generate_chunks (\<lambda>s. s) ''f1'' 5242880 = Inr chunks
       \<and> int (length chunks) = 10 \<and> size_node (last chunks) = 524288
       \<and> sum_list (map size_node chunks) = 5242880"
    by blast
  from initiate_main_600 obtain net' out tr where
    i: "initiate_file_transfer_main demo_network_main ''node1'' ''node2'' ''a.bin'' 600
          = (net', out, Inr (Some tr))" by blast
  note a = chunking_policy [of 600 _ _ demo_network_main "''node1''" "''node2''" "''a.bin''",
      THEN conjunct2, THEN conjunct2, THEN conjunct1, rule_format, OF i]
  from a have a1: "chunk_size_main tr = 1048576" by (rule conjunct1)
  have r6: "(0::int) < 600 \<and> (600::int) < 2 ^ 53" by simp
  from a [THEN conjunct2, rule_format, OF r6] have a2: "total_chunks_main tr = 1"
    by (simp only: of_int_numeral c1)
  from i a1 a2 have w2: "\<exists>net' out tr.
         initiate_file_transfer_main demo_network_main ''node1'' ''node2'' ''a.bin'' 600
           = (net', out, Inr (Some tr))
         \<and> chunk_size_main tr = 1048576 \<and> total_chunks_main tr = 1"
    by blast
  from node_initiate_net_5MiB obtain n' objs' rf where
    ni: "node_initiate_file_transfer_net
           (StorageNode_net ''node2'' 8 32 (1000 * 1024 * 1024) 2000000000) []
           ''a.bin-0.5'' ''a.bin'' 5242880 ''node1'' = (n', objs', Some rf)" by blast
  note b = chunking_policy [of 5242880 _ "''a.bin-0.5''" _ "''node1''" _ "''a.bin''"
      "StorageNode_net ''node2'' 8 32 (1000 * 1024 * 1024) 2000000000" "[]",
      THEN conjunct2, THEN conjunct2, THEN conjunct2, rule_format, OF ni]
  from b have b1: "chunk_size_net (objs' ! rf) = 1048576" by (rule conjunct1)
  have p: "(0::int) < 5242880" by simp
  note b' = b [THEN conjunct2, rule_format, OF p]
  from b' have b2: "int (length (chunks_net (objs' ! rf))) = 5" by (simp add: c5)
  from b' have b3: "sum_list (map size_net (chunks_net (objs' ! rf))) = 5242880" by simp
  from ni b1 b2 b3 have w3: "\<exists>n' objs' r.
         node_initiate_file_transfer_net
           (StorageNode_net ''node2'' 8 32 (1000 * 1024 * 1024) 2000000000) []
           ''a.bin-0.5'' ''a.bin'' 5242880 ''node1'' = (n', objs', Some r)
         \<and> chunk_size_net (objs' ! r) = 1048576
         \<and> int (length (chunks_net (objs' ! r))) = 5
         \<and> sum_list (map size_net (chunks_net (objs' ! r))) = 5242880"
    by blast
  from w1 w2 w3 show ?thesis by (intro conjI)
qed

end
